theory Spec2Isabelle
  imports Complex_Main "HOL-Library.AList"
begin

section \<open>Python values, errors and containers\<close>

text \<open>
  The exceptions that the plotting module can raise or catch. Every raise of the source
  is a value of this type.
\<close>

datatype error = IndexError | TypeError | ValueError | AttributeError
  | NotImplementedError | KeyError

text \<open>Style values handed to the plotting library: \<open>None\<close>, a string or a number.\<close>

datatype pyval = PyNone | Str string | Num real

text \<open>
  A keyword dictionary. Python dictionaries keep insertion order; \<open>dict.update\<close>
  overwrites the value of a key that is present, in place, and puts a new key last.
\<close>

type_synonym kwargs = "(string \<times> pyval) list"

definition dict_update :: "kwargs \<Rightarrow> kwargs \<Rightarrow> kwargs" where
  "dict_update d kw = fold (\<lambda>(k, v). AList.update k v) kw d"

text \<open>\<open>d[k]\<close>: a missing key raises.\<close>

definition dict_get :: "kwargs \<Rightarrow> string \<Rightarrow> error + pyval" where
  "dict_get d k = (case map_of d k of None \<Rightarrow> Inl KeyError | Some v \<Rightarrow> Inr v)"

text \<open>\<open>xs[i]\<close>: a negative index counts from the end, an index out of range raises.\<close>

definition py_index :: "'a list \<Rightarrow> int \<Rightarrow> error + 'a" where
  "py_index xs i =
     (if 0 \<le> i \<and> i < int (length xs) then Inr (xs ! nat i)
      else if i < 0 \<and> - int (length xs) \<le> i then Inr (xs ! nat (int (length xs) + i))
      else Inl IndexError)"

text \<open>A list comprehension whose element expression may raise: the first raise wins.\<close>

fun mapE :: "('a \<Rightarrow> error + 'b) \<Rightarrow> 'a list \<Rightarrow> error + 'b list" where
  "mapE f [] = Inr []"
| "mapE f (x # xs) =
     (case f x of
        Inl e \<Rightarrow> Inl e
      | Inr y \<Rightarrow> (case mapE f xs of Inl e \<Rightarrow> Inl e | Inr ys \<Rightarrow> Inr (y # ys)))"

text \<open>
  An argument that is either one object or a \<open>set\<close> of objects
  (\<open>if not isinstance(x, set): x = {x}\<close>). A set is given by its elements in the order
  in which iteration yields them; the elements are objects, so equal values may repeat.
\<close>

datatype 'a one_or_set = One 'a | SetOf "'a list"

fun as_set :: "'a one_or_set \<Rightarrow> 'a list" where
  "as_set (One x) = [x]"
| "as_set (SetOf xs) = xs"

section \<open>The data model\<close>

type_synonym vec = "real list"
type_synonym matrix = "real list list"

text \<open>
  A measurement model: \<open>LinearModel\<close> instances offer \<open>matrix()\<close>, every model may
  or may not have an \<open>inverse_function\<close> attribute (\<open>None\<close>: the attribute lookup raises
  \<open>AttributeError\<close>), and a call of the inverse function may itself raise. The inverse
  function reads the state vector of the detection it is given.
\<close>

datatype model_kind = LinearModel matrix | NonLinearModel | OtherModel

record meas_model =
  kind :: model_kind
  inverse_function :: "(vec \<Rightarrow> error + vec) option"

text \<open>
  The class of an object, as far as the \<open>isinstance\<close> tests of the module see it:
  \<open>Clutter\<close> is a \<open>Detection\<close>, a \<open>Detection\<close> is a \<open>State\<close>.
\<close>

datatype py_class = ObjectC | StateC | DetectionC | ClutterC


definition isinstance_Detection :: "py_class \<Rightarrow> bool" where
  "isinstance_Detection c = (c = DetectionC \<or> c = ClutterC)"

definition isinstance_Clutter :: "py_class \<Rightarrow> bool" where
  "isinstance_Clutter c = (c = ClutterC)"

text \<open>
  A state object. \<open>covar\<close> and \<open>particles\<close> are attributes that only some states
  have (\<open>None\<close>: reading the attribute raises \<open>AttributeError\<close>); a particle is given by
  its state vector. \<open>measurement_model\<close> is the attribute of detections, whose value may
  be Python's \<open>None\<close>.
\<close>

record state =
  cls :: py_class
  state_vector :: vec
  timestamp :: int
  covar :: "matrix option"
  particles :: "vec list option"
  measurement_model :: "meas_model option"

text \<open>A track: its states in order, and its state dimensionality \<open>track.ndim\<close>.\<close>

record track =
  states :: "state list"
  ndim :: nat

section \<open>The chart builder\<close>

record ellipse =
  xy :: "real \<times> real"
  width :: real
  height :: real
  angle :: real
  alpha :: real
  color :: pyval

text \<open>What has been drawn on the axes, in drawing order.\<close>

datatype artist =
    PlotLine "real list" "real list" kwargs
  | Scatter real real kwargs
  | EllipseArtist ellipse

text \<open>Legend handles: \<open>Line2D([], [], **kw)\<close> and \<open>Ellipse(...)\<close>.\<close>

datatype handle = Line2D kwargs | EllipseHandle ellipse

datatype warning = Warn string | WarnUnknownType py_class

text \<open>
  The rendered legend: the handles and labels that the last \<open>ax.legend\<close> call was given,
  and whether it was given the handler map for ellipses.
\<close>

record legend =
  handles :: "handle list"
  labels :: "string list"
  ellipse_handler :: bool

text \<open>
  The plotter object: the axes' artists, the two legend lists of \<open>__init__\<close>, the legend
  on the axes, and the warnings emitted so far.
\<close>

record plotter =
  artists :: "artist list"
  handles_list :: "handle list"
  labels_list :: "string list"
  ax_legend :: "legend option"
  warnings :: "warning list"

definition init_plotter :: plotter where
  "init_plotter = \<lparr>artists = [], handles_list = [], labels_list = [],
     ax_legend = None, warnings = []\<rparr>"

text \<open>\<open>self.ax.legend(handles=self.handles_list, labels=self.labels_list)\<close>\<close>

definition render_legend :: "bool \<Rightarrow> plotter \<Rightarrow> plotter" where
  "render_legend hm p =
     p\<lparr>ax_legend := Some \<lparr>handles = handles_list p, labels = labels_list p,
                              ellipse_handler = hm\<rparr>\<rparr>"

definition append_legend_item :: "handle \<Rightarrow> string \<Rightarrow> plotter \<Rightarrow> plotter" where
  "append_legend_item h l p =
     p\<lparr>handles_list := handles_list p @ [h], labels_list := labels_list p @ [l]\<rparr>"

subsection \<open>Lines through mapped coordinates\<close>

text \<open>
  \<open>self.ax.plot([s.state_vector[mapping[0]] for s in path],
                [s.state_vector[mapping[1]] for s in path], **kw)\<close>
\<close>

definition path_line :: "state list \<Rightarrow> int \<times> int \<Rightarrow> kwargs \<Rightarrow> error + artist" where
  "path_line path mapping kw =
     (case mapE (\<lambda>s. py_index (state_vector s) (fst mapping)) path of
        Inl e \<Rightarrow> Inl e
      | Inr xs \<Rightarrow>
          (case mapE (\<lambda>s. py_index (state_vector s) (snd mapping)) path of
             Inl e \<Rightarrow> Inl e
           | Inr ys \<Rightarrow> Inr (PlotLine xs ys kw)))"

text \<open>The loop over the paths: a raise leaves the lines drawn before it on the axes.\<close>

fun plot_paths ::
  "state list list \<Rightarrow> int \<times> int \<Rightarrow> kwargs \<Rightarrow> plotter \<Rightarrow> plotter \<times> error option" where
  "plot_paths [] mapping kw p = (p, None)"
| "plot_paths (t # ts) mapping kw p =
     (case path_line t mapping kw of
        Inl e \<Rightarrow> (p, Some e)
      | Inr a \<Rightarrow> plot_paths ts mapping kw (p\<lparr>artists := artists p @ [a]\<rparr>))"

subsection \<open>plot_ground_truths\<close>

definition plot_ground_truths ::
  "state list one_or_set \<Rightarrow> int \<times> int \<Rightarrow> kwargs \<Rightarrow> plotter \<Rightarrow> plotter \<times> error option" where
  "plot_ground_truths truths mapping kw p =
     (let truths_kwargs = dict_update [(''linestyle'', Str ''--'')] kw in
      case plot_paths (as_set truths) mapping truths_kwargs p of
        (p1, Some e) \<Rightarrow> (p1, Some e)
      | (p1, None) \<Rightarrow>
          (case dict_get truths_kwargs ''linestyle'' of
             Inl e \<Rightarrow> (p1, Some e)
           | Inr ls \<Rightarrow>
               (render_legend False
                  (append_legend_item
                     (Line2D [(''linestyle'', ls), (''color'', Str ''black'')])
                     ''Ground Truth'' p1),
                None)))"

subsection \<open>plot_measurements\<close>

text \<open>
  \<open>A @ x\<close> for a matrix and a vector: every row must be as long as the vector, else
  numpy raises \<open>ValueError\<close>.
\<close>

definition matvec :: "matrix \<Rightarrow> vec \<Rightarrow> error + vec" where
  "matvec A x =
     (if \<forall>r \<in> set A. length r = length x
      then Inr (map (\<lambda>r. sum_list (map2 (*) r x)) A)
      else Inl ValueError)"

text \<open>
  An element of the \<open>measurements\<close> argument: a detection, or a set of detections.
  When some element is a set, \<open>chain.from_iterable\<close> iterates every element in turn, and
  an element that is a detection is not iterable: the iteration raises \<open>TypeError\<close> when
  it reaches it.
\<close>

datatype meas_item = Single state | Group "state list"

fun is_set_item :: "meas_item \<Rightarrow> bool" where
  "is_set_item (Single d) = False"
| "is_set_item (Group ds) = True"

fun chain_item :: "meas_item \<Rightarrow> (error + state) list" where
  "chain_item (Single d) = [Inl TypeError]"
| "chain_item (Group ds) = map Inr ds"

fun single_item :: "meas_item \<Rightarrow> (error + state) list" where
  "single_item (Single d) = [Inr d]"
| "single_item (Group ds) = []"

definition measurements_set :: "meas_item list \<Rightarrow> (error + state) list" where
  "measurements_set measurements =
     (if list_ex is_set_item measurements
      then concat (map chain_item measurements)
      else concat (map single_item measurements))"

text \<open>Lines 128 to 130: the model of the detection, else the argument.\<close>

definition resolve_model :: "state \<Rightarrow> meas_model option \<Rightarrow> meas_model option" where
  "resolve_model d fallback =
     (case measurement_model d of None \<Rightarrow> fallback | Some m \<Rightarrow> Some m)"

definition no_inverse_warning :: warning where
  "no_inverse_warning = Warn ''Nonlinear measurement model used with no inverse function available''"

definition no_model_warning :: warning where
  "no_model_warning = Warn ''Measurement model type not specified for all detections''"

text \<open>
  Lines 132 to 146: the state vector of a measurement. The result is a raise, a warning
  followed by \<open>continue\<close>, or the vector. \<open>pinv\<close> is \<open>np.linalg.pinv\<close>.
\<close>

datatype 'a step = Skip warning | Value 'a

definition invert_measurement ::
  "(matrix \<Rightarrow> matrix) \<Rightarrow> state \<Rightarrow> meas_model option \<Rightarrow> error + vec step" where
  "invert_measurement pinv d meas_model =
     (case meas_model of
        None \<Rightarrow> Inr (Skip no_model_warning)
      | Some m \<Rightarrow>
          (case kind m of
             LinearModel model_matrix \<Rightarrow>
               (case matvec (pinv model_matrix) (state_vector d) of
                  Inl e \<Rightarrow> Inl e
                | Inr state_vec \<Rightarrow> Inr (Value state_vec))
           | NonLinearModel \<Rightarrow>
               (case inverse_function m of
                  None \<Rightarrow> Inr (Skip no_inverse_warning)
                | Some f \<Rightarrow>
                    (case f (state_vector d) of
                       Inl e \<Rightarrow>
                         (if e = NotImplementedError \<or> e = AttributeError
                          then Inr (Skip no_inverse_warning) else Inl e)
                     | Inr state_vec \<Rightarrow> Inr (Value state_vec)))
           | OtherModel \<Rightarrow> Inr (Skip no_model_warning)))"

definition clutter_kwargs :: kwargs where
  "clutter_kwargs = [(''color'', Str ''y''), (''marker'', Str ''2'')]"

definition clutter_line2d :: handle where
  "clutter_line2d = Line2D [(''linestyle'', Str []), (''marker'', Str ''2''), (''color'', Str ''y'')]"

text \<open>\<open>self.ax.scatter(*state_vec[mapping], **kw)\<close>\<close>

definition scatter_mapped :: "vec \<Rightarrow> int \<times> int \<Rightarrow> kwargs \<Rightarrow> error + artist" where
  "scatter_mapped state_vec mapping kw =
     (case py_index state_vec (fst mapping) of
        Inl e \<Rightarrow> Inl e
      | Inr x \<Rightarrow>
          (case py_index state_vec (snd mapping) of
             Inl e \<Rightarrow> Inl e
           | Inr y \<Rightarrow> Inr (Scatter x y kw)))"

text \<open>The state of the loop of lines 127 to 162: the plotter and the clutter legend item.\<close>

record loop_state =
  plt :: plotter
  clutter_handle :: "handle option"
  clutter_label :: "string option"

definition warn :: "warning \<Rightarrow> loop_state \<Rightarrow> loop_state" where
  "warn w s = s\<lparr>plt := (plt s)\<lparr>warnings := warnings (plt s) @ [w]\<rparr>\<rparr>"

definition add_artist :: "artist \<Rightarrow> loop_state \<Rightarrow> loop_state" where
  "add_artist a s = s\<lparr>plt := (plt s)\<lparr>artists := artists (plt s) @ [a]\<rparr>\<rparr>"

text \<open>One iteration of the loop, for the measurement \<open>d\<close>.\<close>

definition measurement_step ::
  "(matrix \<Rightarrow> matrix) \<Rightarrow> int \<times> int \<Rightarrow> meas_model option \<Rightarrow> kwargs \<Rightarrow> state \<Rightarrow>
     loop_state \<Rightarrow> error + loop_state" where
  "measurement_step pinv mapping fallback measurement_kwargs d s =
     (case invert_measurement pinv d (resolve_model d fallback) of
        Inl e \<Rightarrow> Inl e
      | Inr (Skip w) \<Rightarrow> Inr (warn w s)
      | Inr (Value state_vec) \<Rightarrow>
          (if isinstance_Clutter (cls d) then
             (case scatter_mapped state_vec mapping clutter_kwargs of
                Inl e \<Rightarrow> Inl e
              | Inr a \<Rightarrow>
                  Inr (if clutter_handle (add_artist a s) = None
                       then (add_artist a s)\<lparr>clutter_handle := Some clutter_line2d,
                                               clutter_label := Some ''Clutter''\<rparr>
                       else add_artist a s))
           else if isinstance_Detection (cls d) then
             (case scatter_mapped state_vec mapping measurement_kwargs of
                Inl e \<Rightarrow> Inl e
              | Inr a \<Rightarrow> Inr (add_artist a s))
           else Inr (warn (WarnUnknownType (cls d)) s)))"

fun measurements_loop ::
  "(matrix \<Rightarrow> matrix) \<Rightarrow> int \<times> int \<Rightarrow> meas_model option \<Rightarrow> kwargs \<Rightarrow>
     (error + state) list \<Rightarrow> loop_state \<Rightarrow> loop_state \<times> error option" where
  "measurements_loop pinv mapping fallback kw [] s = (s, None)"
| "measurements_loop pinv mapping fallback kw (Inl e # rest) s = (s, Some e)"
| "measurements_loop pinv mapping fallback kw (Inr d # rest) s =
     (case measurement_step pinv mapping fallback kw d s of
        Inl e \<Rightarrow> (s, Some e)
      | Inr s' \<Rightarrow> measurements_loop pinv mapping fallback kw rest s')"

text \<open>
  \<open>Line2D([], [], linestyle='', **measurement_kwargs)\<close>: a \<open>linestyle\<close> among the keyword
  arguments is a second value for the same parameter, a \<open>TypeError\<close>.
\<close>

definition measurements_line2d :: "kwargs \<Rightarrow> error + handle" where
  "measurements_line2d measurement_kwargs =
     (if ''linestyle'' \<in> fst ` set measurement_kwargs then Inl TypeError
      else Inr (Line2D ((''linestyle'', Str []) # measurement_kwargs)))"

definition plot_measurements ::
  "(matrix \<Rightarrow> matrix) \<Rightarrow> meas_item list \<Rightarrow> int \<times> int \<Rightarrow> meas_model option \<Rightarrow> kwargs \<Rightarrow>
     plotter \<Rightarrow> plotter \<times> error option" where
  "plot_measurements pinv measurements mapping fallback kw p =
     (let measurement_kwargs =
            dict_update [(''marker'', Str ''o''), (''color'', Str ''b'')] kw in
      case measurements_line2d measurement_kwargs of
        Inl e \<Rightarrow> (p, Some e)
      | Inr measurements_handle \<Rightarrow>
          (case measurements_loop pinv mapping fallback measurement_kwargs
                  (measurements_set measurements)
                  \<lparr>plt = p, clutter_handle = None, clutter_label = None\<rparr> of
             (s, Some e) \<Rightarrow> (plt s, Some e)
           | (s, None) \<Rightarrow>
               (let p1 = append_legend_item measurements_handle ''Measurements'' (plt s);
                    p2 = (case (clutter_handle s, clutter_label s) of
                            (Some h, Some l) \<Rightarrow> append_legend_item h l p1
                          | _ \<Rightarrow> p1)
                in (render_legend False p2, None))))"

subsection \<open>plot_tracks\<close>

text \<open>
  Matrices are numpy arrays: lists of rows of one length. \<open>A @ B\<close> raises
  \<open>ValueError\<close> unless the rows of \<open>A\<close> are as long as \<open>B\<close> has rows.
\<close>

definition eye :: "nat \<Rightarrow> matrix" where
  "eye n = map (\<lambda>i. map (\<lambda>j. if i = j then 1 else 0) [0..<n]) [0..<n]"

definition dot :: "vec \<Rightarrow> vec \<Rightarrow> real" where
  "dot r c = sum_list (map2 (*) r c)"

definition matmul :: "matrix \<Rightarrow> matrix \<Rightarrow> error + matrix" where
  "matmul A B =
     (if \<forall>r \<in> set A. length r = length B
      then Inr (map (\<lambda>r. map (\<lambda>c. dot r c) (transpose B)) A)
      else Inl ValueError)"

text \<open>\<open>HH = np.eye(track.ndim)[mapping, :]\<close>: the rows of the identity that \<open>mapping\<close> names.\<close>

definition position_mapping_matrix :: "nat \<Rightarrow> int \<times> int \<Rightarrow> error + matrix" where
  "position_mapping_matrix n mapping =
     (case py_index (eye n) (fst mapping) of
        Inl e \<Rightarrow> Inl e
      | Inr r0 \<Rightarrow>
          (case py_index (eye n) (snd mapping) of
             Inl e \<Rightarrow> Inl e
           | Inr r1 \<Rightarrow> Inr [r0, r1]))"

text \<open>\<open>HH @ state.covar @ HH.T\<close>; a state without covariance raises \<open>AttributeError\<close>.\<close>

definition projected_covar :: "matrix \<Rightarrow> state \<Rightarrow> error + matrix" where
  "projected_covar HH s =
     (case covar s of
        None \<Rightarrow> Inl AttributeError
      | Some C \<Rightarrow>
          (case matmul HH C of
             Inl e \<Rightarrow> Inl e
           | Inr HC \<Rightarrow> matmul HC (transpose HH)))"

text \<open>\<open>np.argmax\<close> and \<open>np.argmin\<close>: the first index of the largest (smallest) entry.\<close>

fun first_index :: "'a list \<Rightarrow> 'a \<Rightarrow> nat" where
  "first_index [] x = 0"
| "first_index (y # ys) x = (if x = y then 0 else Suc (first_index ys x))"

definition argmax :: "real list \<Rightarrow> error + nat" where
  "argmax w = (if w = [] then Inl ValueError else Inr (first_index w (Max (set w))))"

definition argmin :: "real list \<Rightarrow> error + nat" where
  "argmin w = (if w = [] then Inl ValueError else Inr (first_index w (Min (set w))))"

text \<open>\<open>v[i, j]\<close> with indices that are not negative.\<close>

definition entry :: "matrix \<Rightarrow> nat \<Rightarrow> nat \<Rightarrow> error + real" where
  "entry v i j =
     (if i < length v \<and> j < length (v ! i) then Inr (v ! i ! j) else Inl IndexError)"

text \<open>\<open>np.arctan2(y, x)\<close> and \<open>np.rad2deg\<close>, over the reals.\<close>

definition arctan2 :: "real \<Rightarrow> real \<Rightarrow> real" where
  "arctan2 y x =
     (if 0 < x then arctan (y / x)
      else if x < 0 then (if 0 \<le> y then arctan (y / x) + pi else arctan (y / x) - pi)
      else if 0 < y then pi / 2
      else if y < 0 then - pi / 2
      else 0)"

definition rad2deg :: "real \<Rightarrow> real" where
  "rad2deg r = r * 180 / pi"

text \<open>
  Lines 226 to 234: the ellipse of one state. \<open>eig\<close> is \<open>np.linalg.eig\<close>: it returns the
  eigenvalues \<open>w\<close> and the matrix \<open>v\<close> whose columns are the eigenvectors.
\<close>

definition state_ellipse ::
  "(matrix \<Rightarrow> vec \<times> matrix) \<Rightarrow> matrix \<Rightarrow> kwargs \<Rightarrow> state \<Rightarrow> error + ellipse" where
  "state_ellipse eig HH tracks_kwargs s =
     (case projected_covar HH s of
        Inl e \<Rightarrow> Inl e
      | Inr P \<Rightarrow>
     (case eig P of (w, v) \<Rightarrow>
     (case argmax w of
        Inl e \<Rightarrow> Inl e
      | Inr max_ind \<Rightarrow>
     (case argmin w of
        Inl e \<Rightarrow> Inl e
      | Inr min_ind \<Rightarrow>
     (case entry v 1 max_ind of
        Inl e \<Rightarrow> Inl e
      | Inr v1 \<Rightarrow>
     (case entry v 0 max_ind of
        Inl e \<Rightarrow> Inl e
      | Inr v0 \<Rightarrow>
     (case py_index (state_vector s) 0 of
        Inl e \<Rightarrow> Inl e
      | Inr x \<Rightarrow>
     (case py_index (state_vector s) 2 of
        Inl e \<Rightarrow> Inl e
      | Inr y \<Rightarrow>
     (case dict_get tracks_kwargs ''color'' of
        Inl e \<Rightarrow> Inl e
      | Inr c \<Rightarrow>
          Inr \<lparr>xy = (x, y),
               width = 2 * sqrt (w ! max_ind),
               height = 2 * sqrt (w ! min_ind),
               angle = rad2deg (arctan2 v1 v0),
               alpha = 0.2,
               color = c\<rparr>)))))))))"

fun track_ellipses ::
  "(matrix \<Rightarrow> vec \<times> matrix) \<Rightarrow> matrix \<Rightarrow> kwargs \<Rightarrow> state list \<Rightarrow> plotter \<Rightarrow>
     plotter \<times> error option" where
  "track_ellipses eig HH kw [] p = (p, None)"
| "track_ellipses eig HH kw (s # ss) p =
     (case state_ellipse eig HH kw s of
        Inl e \<Rightarrow> (p, Some e)
      | Inr el \<Rightarrow>
          track_ellipses eig HH kw ss (p\<lparr>artists := artists p @ [EllipseArtist el]\<rparr>))"

fun plot_ellipses ::
  "(matrix \<Rightarrow> vec \<times> matrix) \<Rightarrow> track list \<Rightarrow> int \<times> int \<Rightarrow> kwargs \<Rightarrow> plotter \<Rightarrow>
     plotter \<times> error option" where
  "plot_ellipses eig [] mapping kw p = (p, None)"
| "plot_ellipses eig (t # ts) mapping kw p =
     (case position_mapping_matrix (ndim t) mapping of
        Inl e \<Rightarrow> (p, Some e)
      | Inr HH \<Rightarrow>
          (case track_ellipses eig HH kw (states t) p of
             (p1, Some e) \<Rightarrow> (p1, Some e)
           | (p1, None) \<Rightarrow> plot_ellipses eig ts mapping kw p1))"

text \<open>
  \<open>np.array(rows)\<close> of a list of vectors, and \<open>data[:, k]\<close>. Vectors of different lengths
  make no array; an empty list makes an array of one dimension, which has no column.
\<close>

definition np_array :: "vec list \<Rightarrow> error + vec list" where
  "np_array rows =
     (if \<forall>r \<in> set rows. length r = length (hd rows) then Inr rows else Inl ValueError)"

definition column :: "nat \<Rightarrow> vec list \<Rightarrow> error + real list" where
  "column k rows =
     (if rows = [] \<or> \<not> k < length (hd rows) then Inl IndexError
      else Inr (map (\<lambda>r. r ! k) rows))"

definition particle_kwargs :: kwargs where
  "particle_kwargs = [(''linestyle'', Str []), (''marker'', Str ''.''),
     (''markersize'', Num 1), (''alpha'', Num 0.5)]"

text \<open>Lines 252 to 254: the particle cloud of one state.\<close>

definition state_particles :: "state \<Rightarrow> error + artist" where
  "state_particles s =
     (case particles s of
        None \<Rightarrow> Inl AttributeError
      | Some ps \<Rightarrow>
          (case np_array ps of
             Inl e \<Rightarrow> Inl e
           | Inr data \<Rightarrow>
               (case column 0 data of
                  Inl e \<Rightarrow> Inl e
                | Inr xs \<Rightarrow>
                    (case column 2 data of
                       Inl e \<Rightarrow> Inl e
                     | Inr ys \<Rightarrow> Inr (PlotLine xs ys particle_kwargs)))))"

fun plot_particles :: "state list \<Rightarrow> plotter \<Rightarrow> plotter \<times> error option" where
  "plot_particles [] p = (p, None)"
| "plot_particles (s # ss) p =
     (case state_particles s of
        Inl e \<Rightarrow> (p, Some e)
      | Inr a \<Rightarrow> plot_particles ss (p\<lparr>artists := artists p @ [a]\<rparr>))"

definition track_line2d :: "kwargs \<Rightarrow> error + handle" where
  "track_line2d tracks_kwargs =
     (case dict_get tracks_kwargs ''linestyle'' of
        Inl e \<Rightarrow> Inl e
      | Inr ls \<Rightarrow>
          (case dict_get tracks_kwargs ''marker'' of
             Inl e \<Rightarrow> Inl e
           | Inr mk \<Rightarrow>
               Inr (Line2D [(''linestyle'', ls), (''marker'', mk), (''color'', Str ''black'')])))"

definition uncertainty_handle :: "kwargs \<Rightarrow> error + handle" where
  "uncertainty_handle tracks_kwargs =
     (case dict_get tracks_kwargs ''color'' of
        Inl e \<Rightarrow> Inl e
      | Inr c \<Rightarrow>
          Inr (EllipseHandle \<lparr>xy = (0.5, 0.5), width = 0.5, height = 0.5, angle = 0,
                              alpha = 0.2, color = c\<rparr>))"

definition particle_line2d :: handle where
  "particle_line2d = Line2D [(''linestyle'', Str []), (''color'', Str ''black''),
     (''marker'', Str ''.''), (''markersize'', Num 1)]"

definition plot_tracks ::
  "(matrix \<Rightarrow> vec \<times> matrix) \<Rightarrow> track one_or_set \<Rightarrow> int \<times> int \<Rightarrow> bool \<Rightarrow> bool \<Rightarrow> kwargs \<Rightarrow>
     plotter \<Rightarrow> plotter \<times> error option" where
  "plot_tracks eig tracks mapping uncertainty particle kw p =
     (let tracks_kwargs =
            dict_update [(''linestyle'', Str ''-''), (''marker'', Str ''.''),
                         (''color'', PyNone)] kw;
          ts = as_set tracks in
      case plot_paths (map states ts) mapping tracks_kwargs p of
        (p1, Some e) \<Rightarrow> (p1, Some e)
      | (p1, None) \<Rightarrow>
          (case track_line2d tracks_kwargs of
             Inl e \<Rightarrow> (p1, Some e)
           | Inr track_handle \<Rightarrow>
               (let p2 = append_legend_item track_handle ''Track'' p1 in
                if uncertainty then
                  (case plot_ellipses eig ts mapping tracks_kwargs p2 of
                     (p3, Some e) \<Rightarrow> (p3, Some e)
                   | (p3, None) \<Rightarrow>
                       (case uncertainty_handle tracks_kwargs of
                          Inl e \<Rightarrow> (p3, Some e)
                        | Inr ellipse_handle \<Rightarrow>
                            (render_legend True
                               (append_legend_item ellipse_handle ''Uncertainty'' p3),
                             None)))
                else if particle then
                  (case plot_particles (concat (map states ts)) p2 of
                     (p3, Some e) \<Rightarrow> (p3, Some e)
                   | (p3, None) \<Rightarrow>
                       (render_legend False
                          (append_legend_item particle_line2d ''Particles'' p3),
                        None))
                else (render_legend False p2, None))))"

section \<open>The time based plotter\<close>

text \<open>
  A \<open>TimeBasedPlotter\<close> object after construction: \<open>plotting_data\<close> is the stored
  series, or Python's \<open>None\<close>.
\<close>

record plot_object =
  plotting_data :: "state list option"
  legend_key :: string
  plotting_keyword_arguments :: kwargs

subsection \<open>prepare_data\<close>





subsection \<open>update_animation\<close>

text \<open>
  A line on the figure: its displayed data and its style. Every entry of a list of lines
  is a line object of its own.
\<close>

record line =
  xdata :: "real list"
  ydata :: "real list"
  style :: kwargs

text \<open>\<open>the_data.size\<close>: the number of entries of the array.\<close>

definition np_size :: "vec list \<Rightarrow> nat" where
  "np_size rows = (if rows = [] then 0 else length rows * length (hd rows))"

definition visible :: "int \<Rightarrow> state list \<Rightarrow> state list" where
  "visible t data_source = filter (\<lambda>a_state. timestamp a_state \<le> t) data_source"

text \<open>
  The loop of \<open>update_animation\<close>, from index \<open>i\<close> of the enumeration on.
  \<open>lines[i].set_data(the_data[:, 0], the_data[:, 2])\<close> replaces the data of line \<open>i\<close>.
\<close>

fun update_loop ::
  "int \<Rightarrow> nat \<Rightarrow> state list option list \<Rightarrow> line list \<Rightarrow> error + line list" where
  "update_loop t i [] lines = Inr lines"
| "update_loop t i (None # rest) lines = update_loop t (Suc i) rest lines"
| "update_loop t i (Some data_source # rest) lines =
     (case np_array (map state_vector (visible t data_source)) of
        Inl e \<Rightarrow> Inl e
      | Inr the_data \<Rightarrow>
          (if np_size the_data > 0 then
             (case py_index lines (int i) of
                Inl e \<Rightarrow> Inl e
              | Inr l \<Rightarrow>
                  (case column 0 the_data of
                     Inl e \<Rightarrow> Inl e
                   | Inr xs \<Rightarrow>
                       (case column 2 the_data of
                          Inl e \<Rightarrow> Inl e
                        | Inr ys \<Rightarrow>
                            update_loop t (Suc i) rest
                              (lines[i := l\<lparr>xdata := xs, ydata := ys\<rparr>]))))
           else update_loop t (Suc i) rest lines))"

definition update_animation ::
  "int \<Rightarrow> line list \<Rightarrow> state list option list \<Rightarrow> error + line list" where
  "update_animation t lines data_list = update_loop t 0 data_list lines"

subsection \<open>run_animation\<close>

text \<open>
  Lines 365 to 369: the first line of a series,
  \<open>plt.plot(the_data[:1, 0], the_data[:1, 2], **kw)[0]\<close>.
\<close>

definition initial_line :: "plot_object \<Rightarrow> state list \<Rightarrow> error + line" where
  "initial_line a_plot_object series =
     (case np_array (map state_vector series) of
        Inl e \<Rightarrow> Inl e
      | Inr the_data \<Rightarrow>
          (case column 0 the_data of
             Inl e \<Rightarrow> Inl e
           | Inr xs \<Rightarrow>
               (case column 2 the_data of
                  Inl e \<Rightarrow> Inl e
                | Inr ys \<Rightarrow>
                    Inr \<lparr>xdata = take 1 xs, ydata = take 1 ys,
                         style = plotting_keyword_arguments a_plot_object\<rparr>)))"

text \<open>The three lists that the loop of lines 363 to 372 fills.\<close>

record series_lists =
  the_lines :: "line list"
  plotting_data_list :: "state list list"
  legends_key :: "string list"

fun collect_series :: "plot_object list \<Rightarrow> series_lists \<Rightarrow> error + series_lists" where
  "collect_series [] acc = Inr acc"
| "collect_series (a_plot_object # rest) acc =
     (case plotting_data a_plot_object of
        None \<Rightarrow> collect_series rest acc
      | Some series \<Rightarrow>
          (case initial_line a_plot_object series of
             Inl e \<Rightarrow> Inl e
           | Inr l \<Rightarrow>
               collect_series rest
                 \<lparr>the_lines = the_lines acc @ [l],
                  plotting_data_list = plotting_data_list acc @ [series],
                  legends_key = legends_key acc @ [legend_key a_plot_object]\<rparr>))"

text \<open>
  The generator \<open>state.state_vector[k] for line in data for state in line.plotting_data\<close>,
  consumed to its end: iterating a stored series that is \<open>None\<close> raises \<open>TypeError\<close>.
\<close>

definition series_coords :: "int \<Rightarrow> plot_object \<Rightarrow> error + real list" where
  "series_coords k a_line =
     (case plotting_data a_line of
        None \<Rightarrow> Inl TypeError
      | Some series \<Rightarrow> mapE (\<lambda>s. py_index (state_vector s) k) series)"

definition all_coords :: "int \<Rightarrow> plot_object list \<Rightarrow> error + real list" where
  "all_coords k data =
     (case mapE (series_coords k) data of Inl e \<Rightarrow> Inl e | Inr xss \<Rightarrow> Inr (concat xss))"

text \<open>\<open>min\<close> and \<open>max\<close> of an iterable: an empty one raises \<open>ValueError\<close>.\<close>

definition py_min :: "real list \<Rightarrow> error + real" where
  "py_min xs = (if xs = [] then Inl ValueError else Inr (Min (set xs)))"

definition py_max :: "real list \<Rightarrow> error + real" where
  "py_max xs = (if xs = [] then Inl ValueError else Inr (Max (set xs)))"

text \<open>\<open>[min(g), max(g)]\<close> for the generator of component \<open>k\<close>.\<close>

definition bounds :: "int \<Rightarrow> plot_object list \<Rightarrow> error + real \<times> real" where
  "bounds k data =
     (case all_coords k data of
        Inl e \<Rightarrow> Inl e
      | Inr xs \<Rightarrow>
          (case py_min xs of
             Inl e \<Rightarrow> Inl e
           | Inr lo \<Rightarrow>
               (case all_coords k data of
                  Inl e \<Rightarrow> Inl e
                | Inr ys \<Rightarrow>
                    (case py_max ys of Inl e \<Rightarrow> Inl e | Inr hi \<Rightarrow> Inr (lo, hi)))))"

text \<open>Lines 376 to 380: the limits of the two axes.\<close>

definition axis_limits :: "plot_object list \<Rightarrow> error + (real \<times> real) \<times> (real \<times> real)" where
  "axis_limits data =
     (case bounds 0 data of
        Inl e \<Rightarrow> Inl e
      | Inr xlim \<Rightarrow> (case bounds 2 data of Inl e \<Rightarrow> Inl e | Inr ylim \<Rightarrow> Inr (xlim, ylim)))"

text \<open>
  The animation driver calls \<open>update_animation\<close> once for each frame, in the order of
  \<open>times_to_plot\<close>, on the lines that the frame before left.
\<close>

fun play_frames :: "int list \<Rightarrow> line list \<Rightarrow> state list option list \<Rightarrow> error + line list" where
  "play_frames [] lines data_list = Inr lines"
| "play_frames (t # ts) lines data_list =
     (case update_animation t lines data_list of
        Inl e \<Rightarrow> Inl e
      | Inr lines' \<Rightarrow> play_frames ts lines' data_list)"

record animation =
  shown_lines :: "line list"
  shown_legend :: "string list"
  xlim :: "real \<times> real"
  ylim :: "real \<times> real"

definition run_animation :: "int list \<Rightarrow> plot_object list \<Rightarrow> error + animation" where
  "run_animation times_to_plot data =
     (case collect_series data \<lparr>the_lines = [], plotting_data_list = [], legends_key = []\<rparr> of
        Inl e \<Rightarrow> Inl e
      | Inr acc \<Rightarrow>
          (case axis_limits data of
             Inl e \<Rightarrow> Inl e
           | Inr (xl, yl) \<Rightarrow>
               (case play_frames times_to_plot (the_lines acc)
                       (map Some (plotting_data_list acc)) of
                  Inl e \<Rightarrow> Inl e
                | Inr lines \<Rightarrow>
                    Inr \<lparr>shown_lines = lines, shown_legend = legends_key acc,
                         xlim = xl, ylim = yl\<rparr>)))"

section \<open>Notions used in the statements\<close>

text \<open>
  A call of one of the three plotting methods, and a sequence of calls on one plotter.
  A caller may catch the exception of a call and go on, so a sequence runs every call on
  the plotter that the call before left, whether it raised or not.
\<close>

datatype plot_call =
    GroundTruths "state list one_or_set" "int \<times> int" kwargs
  | Measurements "meas_item list" "int \<times> int" "meas_model option" kwargs
  | Tracks "track one_or_set" "int \<times> int" bool bool kwargs

fun run_call ::
  "(matrix \<Rightarrow> matrix) \<Rightarrow> (matrix \<Rightarrow> vec \<times> matrix) \<Rightarrow> plot_call \<Rightarrow> plotter \<Rightarrow>
     plotter \<times> error option" where
  "run_call pinv eig (GroundTruths truths mapping kw) p = plot_ground_truths truths mapping kw p"
| "run_call pinv eig (Measurements ms mapping fallback kw) p =
     plot_measurements pinv ms mapping fallback kw p"
| "run_call pinv eig (Tracks tracks mapping uncertainty particle kw) p =
     plot_tracks eig tracks mapping uncertainty particle kw p"

fun run_calls ::
  "(matrix \<Rightarrow> matrix) \<Rightarrow> (matrix \<Rightarrow> vec \<times> matrix) \<Rightarrow> plot_call list \<Rightarrow> plotter \<Rightarrow> plotter" where
  "run_calls pinv eig [] p = p"
| "run_calls pinv eig (c # cs) p = run_calls pinv eig cs (fst (run_call pinv eig c p))"

text \<open>The legend on the axes shows exactly the two lists of the plotter.\<close>

definition legend_current :: "plotter \<Rightarrow> bool" where
  "legend_current p =
     (case ax_legend p of
        None \<Rightarrow> False
      | Some l \<Rightarrow> handles l = handles_list p \<and> labels l = labels_list p)"

text \<open>
  A measurement for which a point is drawn: a detection (clutter or not) whose state
  vector the resolved model yields. \<open>plotted_clutter\<close>: the same, for clutter only.
\<close>

definition has_state_vec :: "(matrix \<Rightarrow> matrix) \<Rightarrow> meas_model option \<Rightarrow> state \<Rightarrow> bool" where
  "has_state_vec pinv fallback d =
     (case invert_measurement pinv d (resolve_model d fallback) of
        Inr (Value v) \<Rightarrow> True
      | _ \<Rightarrow> False)"

definition plotted :: "(matrix \<Rightarrow> matrix) \<Rightarrow> meas_model option \<Rightarrow> state \<Rightarrow> bool" where
  "plotted pinv fallback d = (isinstance_Detection (cls d) \<and> has_state_vec pinv fallback d)"

definition plotted_clutter :: "(matrix \<Rightarrow> matrix) \<Rightarrow> meas_model option \<Rightarrow> state \<Rightarrow> bool" where
  "plotted_clutter pinv fallback d = (isinstance_Clutter (cls d) \<and> has_state_vec pinv fallback d)"

text \<open>The artists that a call added to the axes.\<close>

definition new_artists :: "plotter \<Rightarrow> plotter \<Rightarrow> artist list" where
  "new_artists p p' = drop (length (artists p)) (artists p')"

text \<open>The centres of the ellipses among some artists, in drawing order.\<close>

fun ellipse_centres :: "artist list \<Rightarrow> (real \<times> real) list" where
  "ellipse_centres [] = []"
| "ellipse_centres (EllipseArtist el # as) = xy el # ellipse_centres as"
| "ellipse_centres (a # as) = ellipse_centres as"

text \<open>A series whose state vectors have one length, of three components at least.\<close>

definition series_ok :: "state list \<Rightarrow> bool" where
  "series_ok series =
     list_all (\<lambda>s. length (state_vector s) = length (state_vector (hd series)) \<and>
                    3 \<le> length (state_vector s)) series"





section \<open>Example inputs\<close>

text \<open>
  Four-dimensional states (position and velocity in two directions) with a diagonal
  covariance, a track of two of them, and stand-ins for the two numpy routines that are
  exact on these inputs: the eigen-decomposition of a diagonal matrix, and the
  pseudo-inverse of a matrix whose rows are orthonormal, its transpose.
\<close>

definition ex_state1 :: state where
  "ex_state1 = \<lparr>cls = StateC, state_vector = [0, 1, 0, 1], timestamp = 0,
     covar = Some [[4, 0, 0, 0], [0, 1, 0, 0], [0, 0, 1, 0], [0, 0, 0, 1]],
     particles = Some [[0, 1, 0, 1], [1, 1, 1, 1]], measurement_model = None\<rparr>"

definition ex_state2 :: state where
  "ex_state2 = \<lparr>cls = StateC, state_vector = [1, 1, 1, 1], timestamp = 1,
     covar = Some [[1, 0, 0, 0], [0, 1, 0, 0], [0, 0, 9, 0], [0, 0, 0, 1]],
     particles = Some [[1, 1, 2, 1]], measurement_model = None\<rparr>"

definition ex_track :: track where
  "ex_track = \<lparr>states = [ex_state1, ex_state2], ndim = 4\<rparr>"

definition ex_eig :: "matrix \<Rightarrow> vec \<times> matrix" where
  "ex_eig M = ([M ! 0 ! 0, M ! 1 ! 1], [[1, 0], [0, 1]])"

definition ex_pinv :: "matrix \<Rightarrow> matrix" where
  "ex_pinv M = transpose M"

definition ex_linear :: meas_model where
  "ex_linear = \<lparr>kind = LinearModel [[1, 0, 0, 0], [0, 0, 1, 0]], inverse_function = None\<rparr>"

definition ex_nonlinear :: meas_model where
  "ex_nonlinear = \<lparr>kind = NonLinearModel, inverse_function = None\<rparr>"


definition ex_detection :: state where
  "ex_detection = \<lparr>cls = DetectionC, state_vector = [5, 7], timestamp = 0, covar = None,
     particles = None, measurement_model = Some ex_linear\<rparr>"

definition ex_clutter :: state where
  "ex_clutter = \<lparr>cls = ClutterC, state_vector = [2, 3], timestamp = 0, covar = None,
     particles = None, measurement_model = None\<rparr>"

definition ex_blind :: state where
  "ex_blind = \<lparr>cls = DetectionC, state_vector = [8, 9], timestamp = 1, covar = None,
     particles = None, measurement_model = Some ex_nonlinear\<rparr>"



definition ex_state4 :: state where
  "ex_state4 = \<lparr>cls = StateC, state_vector = [3, 4, 5, 6], timestamp = 0,
     covar = Some [[1, 0, 0, 0], [0, 4, 0, 0], [0, 0, 1, 0], [0, 0, 0, 1]],
     particles = Some [[3, 4, 5, 6], [7, 8, 9, 10]], measurement_model = None\<rparr>"

definition ex_track2 :: track where
  "ex_track2 = \<lparr>states = [ex_state4], ndim = 4\<rparr>"

section \<open>Further notions: what a call of plot_measurements iterates and draws\<close>

text \<open>The measurements that the loop visits when the iteration raises nowhere.\<close>

fun item_states :: "meas_item \<Rightarrow> state list" where
  "item_states (Single d) = [d]"
| "item_states (Group ds) = ds"

definition iterated :: "meas_item list \<Rightarrow> state list" where
  "iterated measurements = concat (map item_states measurements)"

text \<open>
  The artist \<open>a\<close> is the point of the measurement \<open>d\<close>: a scatter point at the mapped
  components of the state vector that the resolved model yields, in the clutter style
  for clutter and in the style \<open>kw\<close> otherwise.
\<close>

definition scatter_of ::
  "(matrix \<Rightarrow> matrix) \<Rightarrow> int \<times> int \<Rightarrow> meas_model option \<Rightarrow> kwargs \<Rightarrow> state \<Rightarrow> artist \<Rightarrow> bool" where
  "scatter_of pinv mapping fallback kw d a =
     (\<exists>v x y. invert_measurement pinv d (resolve_model d fallback) = Inr (Value v) \<and>
        py_index v (fst mapping) = Inr x \<and> py_index v (snd mapping) = Inr y \<and>
        a = Scatter x y (if isinstance_Clutter (cls d) then clutter_kwargs else kw))"

section \<open>Further notions: animation frames\<close>



definition ex_state3 :: state where
  "ex_state3 = \<lparr>cls = StateC, state_vector = [3, 4, 5, 6], timestamp = 2, covar = None,
     particles = None, measurement_model = None\<rparr>"


definition ex_series :: plot_object where
  "ex_series = \<lparr>plotting_data = Some [ex_state1, ex_state3], legend_key = ''track'',
     plotting_keyword_arguments = []\<rparr>"

definition ex_empty_series :: plot_object where
  "ex_empty_series = \<lparr>plotting_data = Some [], legend_key = ''empty'',
     plotting_keyword_arguments = []\<rparr>"

definition ex_null_series :: plot_object where
  "ex_null_series = \<lparr>plotting_data = None, legend_key = ''null'',
     plotting_keyword_arguments = []\<rparr>"

section \<open>Further notions: tracks and their ellipses\<close>

text \<open>The states of some tracks, each with its track, in the order of the two loops.\<close>

definition track_states :: "track list \<Rightarrow> (track \<times> state) list" where
  "track_states ts = concat (map (\<lambda>t. map (Pair t) (states t)) ts)"

text \<open>
  The ellipse \<open>el\<close> is the uncertainty ellipse of the state \<open>s\<close> of the track \<open>t\<close> under
  \<open>mapping\<close>: with \<open>P\<close> the covariance of the state projected through the mapping and
  \<open>(w, v)\<close> its eigen-decomposition, \<open>kmax\<close> and \<open>kmin\<close> index the largest and the
  smallest eigenvalue, width and height are twice the square roots of these two
  eigenvalues (the semi-axes are the square roots), and the angle is that of column \<open>kmax\<close> of \<open>v\<close> from the x axis, in degrees.
\<close>

text \<open>
  The semi-axes of an ellipse patch: \<open>width\<close> and \<open>height\<close> of \<open>Ellipse\<close> are the total
  lengths of the two axes, so each semi-axis is half of one of them.
\<close>

definition semi_axes :: "ellipse \<Rightarrow> real \<times> real" where
  "semi_axes el = (width el / 2, height el / 2)"

text \<open>The ellipses among some artists, in drawing order.\<close>

fun drawn_ellipses :: "artist list \<Rightarrow> ellipse list" where
  "drawn_ellipses [] = []"
| "drawn_ellipses (EllipseArtist el # as) = el # drawn_ellipses as"
| "drawn_ellipses (a # as) = drawn_ellipses as"

definition uncertainty_ellipse ::
  "(matrix \<Rightarrow> vec \<times> matrix) \<Rightarrow> int \<times> int \<Rightarrow> track \<Rightarrow> state \<Rightarrow> ellipse \<Rightarrow> bool" where
  "uncertainty_ellipse eig mapping t s el =
     (\<exists>HH P w v kmax kmin.
        position_mapping_matrix (ndim t) mapping = Inr HH \<and>
        projected_covar HH s = Inr P \<and> eig P = (w, v) \<and>
        kmax < length w \<and> w ! kmax = Max (set w) \<and>
        kmin < length w \<and> w ! kmin = Min (set w) \<and>
        1 < length v \<and> kmax < length (v ! 0) \<and> kmax < length (v ! 1) \<and>
        width el = 2 * sqrt (w ! kmax) \<and>
        height el = 2 * sqrt (w ! kmin) \<and>
        semi_axes el = (sqrt (w ! kmax), sqrt (w ! kmin)) \<and>
        angle el = rad2deg (arctan2 (v ! 1 ! kmax) (v ! 0 ! kmax)))"

text \<open>The particle cloud of a state: the first and third components of its particles.\<close>

definition particle_cloud :: "state \<Rightarrow> artist \<Rightarrow> bool" where
  "particle_cloud s a =
     (case particles s of
        None \<Rightarrow> False
      | Some ps \<Rightarrow> a = PlotLine (map (\<lambda>v. v ! 0) ps) (map (\<lambda>v. v ! 2) ps) particle_kwargs)"

text \<open>The default style of tracks, updated by the overrides.\<close>

definition tracks_style :: "kwargs \<Rightarrow> kwargs" where
  "tracks_style kw =
     dict_update [(''linestyle'', Str ''-''), (''marker'', Str ''.''), (''color'', PyNone)] kw"

section \<open>Properties\<close>

subsection \<open>Dictionaries and the legend lists\<close>

lemma map_of_dict_update_dom:
  "k \<in> fst ` set d \<Longrightarrow> k \<in> fst ` set (dict_update d kw)"
  unfolding dict_update_def
  by (induction kw arbitrary: d) (auto simp: dom_update split: prod.splits)

lemma dict_get_default:
  "k \<in> fst ` set d \<Longrightarrow> \<exists>v. dict_get (dict_update d kw) k = Inr v"
  using map_of_dict_update_dom [of k d kw]
  by (auto simp: dict_get_def map_of_eq_None_iff split: option.splits)

lemma render_legend_simps [simp]:
  "handles_list (render_legend hm p) = handles_list p"
  "labels_list (render_legend hm p) = labels_list p"
  "artists (render_legend hm p) = artists p"
  "warnings (render_legend hm p) = warnings p"
  "ax_legend (render_legend hm p) =
     Some \<lparr>handles = handles_list p, labels = labels_list p, ellipse_handler = hm\<rparr>"
  by (simp_all add: render_legend_def)

lemma append_legend_item_simps [simp]:
  "handles_list (append_legend_item h l p) = handles_list p @ [h]"
  "labels_list (append_legend_item h l p) = labels_list p @ [l]"
  "artists (append_legend_item h l p) = artists p"
  "warnings (append_legend_item h l p) = warnings p"
  "ax_legend (append_legend_item h l p) = ax_legend p"
  by (simp_all add: append_legend_item_def)

lemma plot_paths_legend:
  "plot_paths ts mapping kw p = (p', e) \<Longrightarrow>
     handles_list p' = handles_list p \<and> labels_list p' = labels_list p \<and>
     ax_legend p' = ax_legend p \<and> warnings p' = warnings p"
  by (induction ts arbitrary: p) (auto split: sum.splits)

lemma track_ellipses_legend:
  "track_ellipses eig HH kw ss p = (p', e) \<Longrightarrow>
     handles_list p' = handles_list p \<and> labels_list p' = labels_list p \<and>
     ax_legend p' = ax_legend p \<and> warnings p' = warnings p"
  by (induction ss arbitrary: p) (auto split: sum.splits)

lemma plot_ellipses_legend:
  "plot_ellipses eig ts mapping kw p = (p', e) \<Longrightarrow>
     handles_list p' = handles_list p \<and> labels_list p' = labels_list p \<and>
     ax_legend p' = ax_legend p \<and> warnings p' = warnings p"
proof (induction ts arbitrary: p)
  case Nil
  then show ?case by simp
next
  case (Cons t ts)
  show ?case
  proof (cases "position_mapping_matrix (ndim t) mapping")
    case (Inl err)
    with Cons.prems show ?thesis by simp
  next
    case (Inr HH)
    obtain p1 e1 where te: "track_ellipses eig HH kw (states t) p = (p1, e1)"
      by (cases "track_ellipses eig HH kw (states t) p")
    note l1 = track_ellipses_legend [OF te]
    show ?thesis
    proof (cases e1)
      case None
      with Cons.prems Inr te have "plot_ellipses eig ts mapping kw p1 = (p', e)" by simp
      from Cons.IH [OF this] l1 show ?thesis by simp
    next
      case (Some err)
      with Cons.prems Inr te l1 show ?thesis by auto
    qed
  qed
qed

lemma plot_particles_legend:
  "plot_particles ss p = (p', e) \<Longrightarrow>
     handles_list p' = handles_list p \<and> labels_list p' = labels_list p \<and>
     ax_legend p' = ax_legend p \<and> warnings p' = warnings p"
  by (induction ss arbitrary: p) (auto split: sum.splits)

lemma measurement_step_legend:
  "measurement_step pinv mapping fb kw d s = Inr s' \<Longrightarrow>
     handles_list (plt s') = handles_list (plt s) \<and>
     labels_list (plt s') = labels_list (plt s) \<and>
     ax_legend (plt s') = ax_legend (plt s)"
  by (auto simp: measurement_step_def warn_def add_artist_def
      split: sum.splits step.splits if_splits)

lemma measurements_loop_legend:
  "measurements_loop pinv mapping fb kw xs s = (s', e) \<Longrightarrow>
     handles_list (plt s') = handles_list (plt s) \<and>
     labels_list (plt s') = labels_list (plt s) \<and>
     ax_legend (plt s') = ax_legend (plt s)"
proof (induction xs arbitrary: s)
  case Nil
  then show ?case by simp
next
  case (Cons x xs)
  show ?case
  proof (cases x)
    case (Inl err)
    with Cons.prems show ?thesis by simp
  next
    case (Inr d)
    show ?thesis
    proof (cases "measurement_step pinv mapping fb kw d s")
      case (Inl err)
      with Cons.prems \<open>x = Inr d\<close> show ?thesis by simp
    next
      case (Inr s1)
      with Cons.prems \<open>x = Inr d\<close>
      have "measurements_loop pinv mapping fb kw xs s1 = (s', e)" by simp
      from Cons.IH [OF this] measurement_step_legend [OF Inr] show ?thesis by simp
    qed
  qed
qed

subsection \<open>The legend registry\<close>

lemma plot_ground_truths_ok:
  assumes "plot_ground_truths truths mapping kw p = (p', None)"
  shows "labels_list p' = labels_list p @ [''Ground Truth''] \<and>
         (\<exists>h. handles_list p' = handles_list p @ [h]) \<and> legend_current p'"
proof -
  let ?kw = "dict_update [(''linestyle'', Str ''--'')] kw"
  obtain p1 e1 where pp: "plot_paths (as_set truths) mapping ?kw p = (p1, e1)"
    by (cases "plot_paths (as_set truths) mapping ?kw p")
  note l1 = plot_paths_legend [OF pp]
  from assms pp l1 show ?thesis
    by (auto simp: plot_ground_truths_def Let_def legend_current_def
        split: option.splits sum.splits)
qed

lemma plot_ground_truths_raise:
  assumes "plot_ground_truths truths mapping kw p = (p', Some e)"
  shows "labels_list p' = labels_list p \<and> handles_list p' = handles_list p"
proof -
  let ?kw = "dict_update [(''linestyle'', Str ''--'')] kw"
  obtain p1 e1 where pp: "plot_paths (as_set truths) mapping ?kw p = (p1, e1)"
    by (cases "plot_paths (as_set truths) mapping ?kw p")
  note l1 = plot_paths_legend [OF pp]
  from assms pp l1 show ?thesis
    by (auto simp: plot_ground_truths_def Let_def split: option.splits sum.splits)
qed

lemma plot_measurements_raise:
  assumes "plot_measurements pinv ms mapping fb kw p = (p', Some e)"
  shows "labels_list p' = labels_list p \<and> handles_list p' = handles_list p"
proof -
  let ?kw = "dict_update [(''marker'', Str ''o''), (''color'', Str ''b'')] kw"
  let ?s0 = "\<lparr>plt = p, clutter_handle = None, clutter_label = None\<rparr>"
  obtain s1 e1 where ml:
    "measurements_loop pinv mapping fb ?kw (measurements_set ms) ?s0 = (s1, e1)"
    by (cases "measurements_loop pinv mapping fb ?kw (measurements_set ms) ?s0")
  note l1 = measurements_loop_legend [OF ml]
  from assms ml l1 show ?thesis
    by (auto simp: plot_measurements_def Let_def split: option.splits sum.splits)
qed

lemma plot_measurements_ok_lists:
  assumes "plot_measurements pinv ms mapping fb kw p = (p', None)"
  shows "\<exists>hs ls. handles_list p' = handles_list p @ hs \<and> labels_list p' = labels_list p @ ls \<and>
           length hs = length ls \<and> legend_current p'"
proof -
  let ?kw = "dict_update [(''marker'', Str ''o''), (''color'', Str ''b'')] kw"
  let ?s0 = "\<lparr>plt = p, clutter_handle = None, clutter_label = None\<rparr>"
  obtain s1 e1 where ml:
    "measurements_loop pinv mapping fb ?kw (measurements_set ms) ?s0 = (s1, e1)"
    by (cases "measurements_loop pinv mapping fb ?kw (measurements_set ms) ?s0")
  note l1 = measurements_loop_legend [OF ml]
  from assms ml l1 show ?thesis
    by (auto simp: plot_measurements_def Let_def legend_current_def
        split: option.splits sum.splits)
qed

lemma plot_tracks_lists:
  assumes "plot_tracks eig tracks mapping uncertainty particle kw p = (p', e)"
  shows "\<exists>hs ls. handles_list p' = handles_list p @ hs \<and> labels_list p' = labels_list p @ ls \<and>
           length hs = length ls \<and> (e = None \<longrightarrow> legend_current p')"
proof -
  let ?kw = "dict_update [(''linestyle'', Str ''-''), (''marker'', Str ''.''),
                         (''color'', PyNone)] kw"
  let ?ts = "as_set tracks"
  obtain p1 e1 where pp: "plot_paths (map states ?ts) mapping ?kw p = (p1, e1)"
    by (cases "plot_paths (map states ?ts) mapping ?kw p")
  note l1 = plot_paths_legend [OF pp]
  show ?thesis
  proof (cases e1)
    case (Some err)
    with assms pp l1 show ?thesis by (auto simp: plot_tracks_def Let_def)
  next
    case None
    show ?thesis
    proof (cases "track_line2d ?kw")
      case (Inl err)
      with assms pp l1 None show ?thesis by (auto simp: plot_tracks_def Let_def)
    next
      case (Inr th)
      let ?p2 = "append_legend_item th ''Track'' p1"
      obtain p3 e3 where pe: "plot_ellipses eig ?ts mapping ?kw ?p2 = (p3, e3)"
        by (cases "plot_ellipses eig ?ts mapping ?kw ?p2")
      obtain p4 e4 where pc: "plot_particles (concat (map states ?ts)) ?p2 = (p4, e4)"
        by (cases "plot_particles (concat (map states ?ts)) ?p2")
      note l3 = plot_ellipses_legend [OF pe]
      note l4 = plot_particles_legend [OF pc]
      from assms pp l1 None Inr pe pc l3 l4 show ?thesis
        by (auto simp: plot_tracks_def Let_def legend_current_def
            split: option.splits sum.splits if_splits)
    qed
  qed
qed

lemma run_call_lists:
  assumes "run_call pinv eig c p = (p', e)"
  shows "\<exists>hs ls. handles_list p' = handles_list p @ hs \<and> labels_list p' = labels_list p @ ls \<and>
           length hs = length ls \<and> (e = None \<longrightarrow> legend_current p')"
proof (cases c)
  case (GroundTruths truths mapping kw)
  with assms have r: "plot_ground_truths truths mapping kw p = (p', e)" by simp
  show ?thesis
  proof (cases e)
    case None
    with plot_ground_truths_ok [of truths mapping kw p p'] r show ?thesis by auto
  next
    case (Some err)
    with plot_ground_truths_raise [of truths mapping kw p p' err] r show ?thesis by auto
  qed
next
  case (Measurements ms mapping fb kw)
  with assms have r: "plot_measurements pinv ms mapping fb kw p = (p', e)" by simp
  show ?thesis
  proof (cases e)
    case None
    with plot_measurements_ok_lists [of pinv ms mapping fb kw p p'] r show ?thesis by auto
  next
    case (Some err)
    with plot_measurements_raise [of pinv ms mapping fb kw p p' err] r show ?thesis by auto
  qed
next
  case (Tracks tracks mapping uncertainty particle kw)
  with assms have "plot_tracks eig tracks mapping uncertainty particle kw p = (p', e)" by simp
  from plot_tracks_lists [OF this] show ?thesis .
qed

lemma run_calls_lists:
  "\<exists>hs ls. handles_list (run_calls pinv eig cs p) = handles_list p @ hs \<and>
           labels_list (run_calls pinv eig cs p) = labels_list p @ ls \<and> length hs = length ls"
proof (induction cs arbitrary: p)
  case Nil
  then show ?case by simp
next
  case (Cons c cs)
  obtain p1 e1 where r: "run_call pinv eig c p = (p1, e1)"
    by (cases "run_call pinv eig c p")
  from run_call_lists [OF r] obtain hs ls where
    a: "handles_list p1 = handles_list p @ hs" "labels_list p1 = labels_list p @ ls"
       "length hs = length ls" by blast
  from Cons.IH [of p1] obtain hs' ls' where
    b: "handles_list (run_calls pinv eig cs p1) = handles_list p1 @ hs'"
       "labels_list (run_calls pinv eig cs p1) = labels_list p1 @ ls'"
       "length hs' = length ls'" by blast
  have "handles_list (run_calls pinv eig (c # cs) p) = handles_list p @ (hs @ hs')"
    "labels_list (run_calls pinv eig (c # cs) p) = labels_list p @ (ls @ ls')"
    "length (hs @ hs') = length (ls @ ls')"
    using a b r by simp_all
  then show ?case by blast
qed

text \<open>
  Claim C9. The legend registry (\<open>handles_list\<close>, \<open>labels_list\<close>) is append-only: over
  any sequence of \<open>plot_ground_truths\<close>, \<open>plot_measurements\<close> and \<open>plot_tracks\<close> calls,
  whether they return or raise, the lists afterwards are the lists before with entries
  appended (the same number to each), so their lengths never decrease; a call that
  returns leaves on the axes the legend of the full lists; and two calls of
  \<open>plot_ground_truths\<close> that return append two \<open>Ground Truth\<close> entries.
\<close>

theorem legend_registry_append_only:
  "(\<exists>hs ls. handles_list (run_calls pinv eig cs p) = handles_list p @ hs \<and>
            labels_list (run_calls pinv eig cs p) = labels_list p @ ls \<and>
            length hs = length ls) \<and>
   length (handles_list p) \<le> length (handles_list (run_calls pinv eig cs p)) \<and>
   length (labels_list p) \<le> length (labels_list (run_calls pinv eig cs p)) \<and>
   (snd (run_call pinv eig c p) = None \<longrightarrow> legend_current (fst (run_call pinv eig c p))) \<and>
   (plot_ground_truths truths1 mapping1 kw1 p = (p1, None) \<and>
    plot_ground_truths truths2 mapping2 kw2 p1 = (p2, None) \<longrightarrow>
      labels_list p2 = labels_list p @ [''Ground Truth'', ''Ground Truth''])"
proof -
  from run_calls_lists [of pinv eig cs p] obtain hs ls where
    a: "handles_list (run_calls pinv eig cs p) = handles_list p @ hs"
       "labels_list (run_calls pinv eig cs p) = labels_list p @ ls"
       "length hs = length ls" by blast
  have 1: "\<exists>hs ls. handles_list (run_calls pinv eig cs p) = handles_list p @ hs \<and>
            labels_list (run_calls pinv eig cs p) = labels_list p @ ls \<and>
            length hs = length ls" using a by blast
  have 2: "length (handles_list p) \<le> length (handles_list (run_calls pinv eig cs p))"
    using a by simp
  have 3: "length (labels_list p) \<le> length (labels_list (run_calls pinv eig cs p))"
    using a by simp
  have 4: "snd (run_call pinv eig c p) = None \<longrightarrow> legend_current (fst (run_call pinv eig c p))"
    using run_call_lists [of pinv eig c p "fst (run_call pinv eig c p)" "snd (run_call pinv eig c p)"]
    by auto
  have 5: "plot_ground_truths truths1 mapping1 kw1 p = (p1, None) \<and>
    plot_ground_truths truths2 mapping2 kw2 p1 = (p2, None) \<longrightarrow>
      labels_list p2 = labels_list p @ [''Ground Truth'', ''Ground Truth'']"
    using plot_ground_truths_ok [of truths1 mapping1 kw1 p p1]
      plot_ground_truths_ok [of truths2 mapping2 kw2 p1 p2] by auto
  from 1 2 3 4 5 show ?thesis by blast
qed

lemmas ground_truths_eval = plot_ground_truths_def dict_update_def dict_get_def path_line_def py_index_def
      init_plotter_def render_legend_def append_legend_item_def ex_state1_def ex_state2_def
      ex_track_def legend_current_def Let_def


theorem legend_registry_append_only_witness:
  "legend_current (fst (plot_ground_truths (SetOf [[ex_state1, ex_state2]]) (0, 2) [] init_plotter)) \<and>
   labels_list (fst (plot_ground_truths (One [ex_state1]) (0, 2) []
      (fst (plot_ground_truths (SetOf [[ex_state1, ex_state2]]) (0, 2) [] init_plotter)))) =
     [''Ground Truth'', ''Ground Truth'']"
proof -
  let ?c = "GroundTruths (SetOf [[ex_state1, ex_state2]]) (0, 2) []"
  let ?p1 = "fst (plot_ground_truths (SetOf [[ex_state1, ex_state2]]) (0, 2) [] init_plotter)"
  let ?p2 = "fst (plot_ground_truths (One [ex_state1]) (0, 2) [] ?p1)"
  have a: "snd (run_call ex_pinv ex_eig ?c init_plotter) = None"
    by (simp add: ground_truths_eval)
  have b: "plot_ground_truths (SetOf [[ex_state1, ex_state2]]) (0, 2) [] init_plotter = (?p1, None)"
    by (simp add: ground_truths_eval)
  have c: "plot_ground_truths (One [ex_state1]) (0, 2) [] ?p1 = (?p2, None)"
    by (simp add: ground_truths_eval)
  have d: "labels_list init_plotter = []" by (simp add: init_plotter_def)
  from legend_registry_append_only [of ex_pinv ex_eig "[]" init_plotter ?c
      "SetOf [[ex_state1, ex_state2]]" "(0, 2)" "[]" ?p1 "One [ex_state1]" "(0, 2)" "[]" ?p2]
    a b c d show ?thesis by simp
qed

subsection \<open>plot_measurements: the legend entries\<close>

lemma dict_update_keys:
  "fst ` set (dict_update d kw) = fst ` set d \<union> fst ` set kw"
  unfolding dict_update_def
  by (induction kw arbitrary: d) (auto simp: dom_update split: prod.splits)

lemma chain_items_no_raise:
  "\<forall>x \<in> set (concat (map chain_item ms)). \<exists>d. x = Inr d \<Longrightarrow>
     concat (map chain_item ms) = map Inr (iterated ms)"
proof (induction ms)
  case Nil
  then show ?case by (simp add: iterated_def)
next
  case (Cons m ms)
  then show ?case by (cases m) (auto simp: iterated_def)
qed

lemma single_items_flat:
  "\<not> list_ex is_set_item ms \<Longrightarrow> concat (map single_item ms) = map Inr (iterated ms)"
proof (induction ms)
  case Nil
  then show ?case by (simp add: iterated_def)
next
  case (Cons m ms)
  then show ?case by (cases m) (auto simp: iterated_def)
qed

lemma measurements_loop_no_raise:
  "measurements_loop pinv mapping fb kw xs s = (s', None) \<Longrightarrow> \<forall>x \<in> set xs. \<exists>d. x = Inr d"
proof (induction xs arbitrary: s)
  case Nil
  then show ?case by simp
next
  case (Cons x xs)
  then show ?case by (cases x) (auto split: sum.splits)
qed

lemma measurements_set_iterated:
  assumes "measurements_loop pinv mapping fb kw (measurements_set ms) s = (s', None)"
  shows "measurements_set ms = map Inr (iterated ms)"
proof (cases "list_ex is_set_item ms")
  case True
  with measurements_loop_no_raise [OF assms] show ?thesis
    by (simp add: measurements_set_def chain_items_no_raise)
next
  case False
  then show ?thesis by (simp add: measurements_set_def single_items_flat)
qed

lemma measurement_step_clutter:
  assumes "measurement_step pinv mapping fb kw d s = Inr s'"
  shows "clutter_handle s' =
           (if plotted_clutter pinv fb d \<and> clutter_handle s = None
            then Some clutter_line2d else clutter_handle s) \<and>
         clutter_label s' =
           (if plotted_clutter pinv fb d \<and> clutter_handle s = None
            then Some ''Clutter'' else clutter_label s)"
  using assms
  by (auto simp: measurement_step_def warn_def add_artist_def plotted_clutter_def
      has_state_vec_def split: sum.splits step.splits if_splits)

lemma measurements_loop_clutter:
  "measurements_loop pinv mapping fb kw (map Inr ds) s = (s', None) \<Longrightarrow>
     clutter_handle s' =
       (if list_ex (plotted_clutter pinv fb) ds \<and> clutter_handle s = None
        then Some clutter_line2d else clutter_handle s) \<and>
     clutter_label s' =
       (if list_ex (plotted_clutter pinv fb) ds \<and> clutter_handle s = None
        then Some ''Clutter'' else clutter_label s)"
proof (induction ds arbitrary: s)
  case Nil
  then show ?case by simp
next
  case (Cons d ds)
  show ?case
  proof (cases "measurement_step pinv mapping fb kw d s")
    case (Inl err)
    with Cons.prems show ?thesis by simp
  next
    case (Inr s1)
    with Cons.prems have "measurements_loop pinv mapping fb kw (map Inr ds) s1 = (s', None)"
      by simp
    from Cons.IH [OF this] measurement_step_clutter [OF Inr] show ?thesis
      by (auto split: if_splits)
  qed
qed

text \<open>
  Claim C4. A call of \<open>plot_measurements\<close> that returns has appended to the legend lists
  exactly one \<open>Measurements\<close> entry and, after it, exactly one \<open>Clutter\<close> entry if and
  only if a clutter point was plotted during the call, and has then rendered the legend
  from the lists. With an empty list of measurements the call returns (unless a
  \<open>linestyle\<close> is among the style overrides, which \<open>Line2D\<close> is given twice then),
  draws nothing and appends the \<open>Measurements\<close> entry alone.
\<close>

theorem plot_measurements_legend_entries:
  "(plot_measurements pinv ms mapping fb kw p = (p', None) \<longrightarrow>
      labels_list p' = labels_list p @ ''Measurements'' #
        (if list_ex (plotted_clutter pinv fb) (iterated ms) then [''Clutter''] else []) \<and>
      handles_list p' = handles_list p @
        Line2D ((''linestyle'', Str []) #
                dict_update [(''marker'', Str ''o''), (''color'', Str ''b'')] kw) #
        (if list_ex (plotted_clutter pinv fb) (iterated ms) then [clutter_line2d] else []) \<and>
      legend_current p') \<and>
   (''linestyle'' \<notin> fst ` set kw \<longrightarrow>
      plot_measurements pinv [] mapping fb kw p =
        (render_legend False
           (append_legend_item
              (Line2D ((''linestyle'', Str []) #
                       dict_update [(''marker'', Str ''o''), (''color'', Str ''b'')] kw))
              ''Measurements'' p),
         None))"
proof -
  let ?kw = "dict_update [(''marker'', Str ''o''), (''color'', Str ''b'')] kw"
  let ?s0 = "\<lparr>plt = p, clutter_handle = None, clutter_label = None\<rparr>"
  have A: "labels_list p' = labels_list p @ ''Measurements'' #
        (if list_ex (plotted_clutter pinv fb) (iterated ms) then [''Clutter''] else []) \<and>
      handles_list p' = handles_list p @ Line2D ((''linestyle'', Str []) # ?kw) #
        (if list_ex (plotted_clutter pinv fb) (iterated ms) then [clutter_line2d] else []) \<and>
      legend_current p'"
    if ok: "plot_measurements pinv ms mapping fb kw p = (p', None)"
  proof -
    obtain s1 e1 where ml:
      "measurements_loop pinv mapping fb ?kw (measurements_set ms) ?s0 = (s1, e1)"
      by (cases "measurements_loop pinv mapping fb ?kw (measurements_set ms) ?s0")
    from ok ml have e1: "e1 = None"
      by (auto simp: plot_measurements_def Let_def split: sum.splits option.splits)
    from ok have h: "measurements_line2d ?kw = Inr (Line2D ((''linestyle'', Str []) # ?kw))"
      by (auto simp: plot_measurements_def Let_def measurements_line2d_def
          split: sum.splits if_splits)
    from ml e1 have ml':
      "measurements_loop pinv mapping fb ?kw (measurements_set ms) ?s0 = (s1, None)" by simp
    have it: "measurements_set ms = map Inr (iterated ms)"
      by (rule measurements_set_iterated [OF ml'])
    note l1 = measurements_loop_legend [OF ml]
    from ml e1 it have
      "measurements_loop pinv mapping fb ?kw (map Inr (iterated ms)) ?s0 = (s1, None)" by simp
    note c1 = measurements_loop_clutter [OF this]
    from ok ml e1 h have p': "p' = render_legend False
        (case (clutter_handle s1, clutter_label s1) of
           (Some hh, Some l) \<Rightarrow>
             append_legend_item hh l
               (append_legend_item (Line2D ((''linestyle'', Str []) # ?kw)) ''Measurements'' (plt s1))
         | _ \<Rightarrow> append_legend_item (Line2D ((''linestyle'', Str []) # ?kw)) ''Measurements'' (plt s1))"
      by (simp add: plot_measurements_def Let_def)
    show ?thesis
      using c1 l1 unfolding p' by (simp add: legend_current_def)
  qed
  have B: "plot_measurements pinv [] mapping fb kw p =
        (render_legend False
           (append_legend_item (Line2D ((''linestyle'', Str []) # ?kw)) ''Measurements'' p),
         None)"
    if nl: "''linestyle'' \<notin> fst ` set kw"
  proof -
    from nl have "''linestyle'' \<notin> fst ` set ?kw"
      by (simp add: dict_update_keys)
    then show ?thesis
      by (simp add: plot_measurements_def Let_def measurements_line2d_def measurements_set_def)
  qed
  from A B show ?thesis by blast
qed

lemmas measurements_eval = plot_measurements_def measurements_line2d_def measurements_set_def
  measurement_step_def invert_measurement_def resolve_model_def matvec_def scatter_mapped_def
  py_index_def dict_update_def warn_def add_artist_def isinstance_Clutter_def
  isinstance_Detection_def clutter_kwargs_def clutter_line2d_def no_inverse_warning_def
  no_model_warning_def init_plotter_def render_legend_def append_legend_item_def
  ex_pinv_def ex_linear_def ex_nonlinear_def ex_detection_def ex_clutter_def ex_blind_def
  plotted_clutter_def plotted_def has_state_vec_def iterated_def Let_def

lemma ex_linear_transpose:
  "transpose [[1, 0, 0, 0], [0, 0, 1, 0::real]] = [[1, 0], [0, 0], [0, 1], [0, 0]]"
  by (simp add: transpose.simps)

theorem plot_measurements_legend_entries_witness:
  "labels_list (fst (plot_measurements ex_pinv
       [Single ex_detection, Single ex_clutter, Single ex_blind] (0, 2) (Some ex_linear) []
       init_plotter)) = [''Measurements'', ''Clutter''] \<and>
   labels_list (fst (plot_measurements ex_pinv [] (0, 2) None [(''color'', Str ''r'')]
       init_plotter)) = [''Measurements'']"
proof -
  let ?ms = "[Single ex_detection, Single ex_clutter, Single ex_blind]"
  let ?r = "plot_measurements ex_pinv ?ms (0, 2) (Some ex_linear) [] init_plotter"
  have "snd ?r = None"
    by (simp add: measurements_eval ex_linear_transpose)
  then have a: "?r = (fst ?r, None)" by (metis prod.collapse)
  have b: "list_ex (plotted_clutter ex_pinv (Some ex_linear)) (iterated ?ms)"
    by (simp add: measurements_eval ex_linear_transpose)
  have c: "''linestyle'' \<notin> fst ` set [(''color'', Str ''r'')]" by simp
  have d: "labels_list init_plotter = []" by (simp add: init_plotter_def)
  from plot_measurements_legend_entries [of ex_pinv ?ms "(0, 2)" "Some ex_linear" "[]"
      init_plotter "fst ?r"] a
  have "labels_list (fst ?r) = labels_list init_plotter @ ''Measurements'' #
      (if list_ex (plotted_clutter ex_pinv (Some ex_linear)) (iterated ?ms)
       then [''Clutter''] else [])" by blast
  with b d have 1: "labels_list (fst ?r) = [''Measurements'', ''Clutter'']" by simp
  from plot_measurements_legend_entries [of ex_pinv "[]" "(0, 2)" None "[(''color'', Str ''r'')]"
      init_plotter] c
  have "plot_measurements ex_pinv [] (0, 2) None [(''color'', Str ''r'')] init_plotter =
        (render_legend False
           (append_legend_item
              (Line2D ((''linestyle'', Str []) #
                 dict_update [(''marker'', Str ''o''), (''color'', Str ''b'')]
                   [(''color'', Str ''r'')]))
              ''Measurements'' init_plotter),
         None)" by blast
  with d have 2: "labels_list (fst (plot_measurements ex_pinv [] (0, 2) None
       [(''color'', Str ''r'')] init_plotter)) = [''Measurements'']" by simp
  from 1 2 show ?thesis by simp
qed

subsection \<open>plot_measurements: what is drawn\<close>

lemma measurement_step_artists:
  assumes "measurement_step pinv mapping fb kw d s = Inr s'"
  shows "(plotted pinv fb d \<longrightarrow>
           (\<exists>a. artists (plt s') = artists (plt s) @ [a] \<and> scatter_of pinv mapping fb kw d a)) \<and>
         (\<not> plotted pinv fb d \<longrightarrow> artists (plt s') = artists (plt s))"
  using assms
  by (auto simp: measurement_step_def warn_def add_artist_def plotted_def has_state_vec_def
      scatter_of_def scatter_mapped_def isinstance_Clutter_def isinstance_Detection_def
      split: sum.splits step.splits if_splits)

lemma measurements_loop_artists:
  "measurements_loop pinv mapping fb kw (map Inr ds) s = (s', None) \<Longrightarrow>
     \<exists>new. artists (plt s') = artists (plt s) @ new \<and>
       list_all2 (scatter_of pinv mapping fb kw) (filter (plotted pinv fb) ds) new"
proof (induction ds arbitrary: s)
  case Nil
  then show ?case by simp
next
  case (Cons d ds)
  show ?case
  proof (cases "measurement_step pinv mapping fb kw d s")
    case (Inl err)
    with Cons.prems show ?thesis by simp
  next
    case (Inr s1)
    with Cons.prems have "measurements_loop pinv mapping fb kw (map Inr ds) s1 = (s', None)"
      by simp
    from Cons.IH [OF this] obtain new where
      n: "artists (plt s') = artists (plt s1) @ new"
         "list_all2 (scatter_of pinv mapping fb kw) (filter (plotted pinv fb) ds) new" by blast
    note st = measurement_step_artists [OF Inr]
    show ?thesis
    proof (cases "plotted pinv fb d")
      case True
      with st obtain a where a: "artists (plt s1) = artists (plt s) @ [a]"
        "scatter_of pinv mapping fb kw d a" by blast
      with n True have "artists (plt s') = artists (plt s) @ (a # new) \<and>
        list_all2 (scatter_of pinv mapping fb kw) (filter (plotted pinv fb) (d # ds)) (a # new)"
        by simp
      then show ?thesis by blast
    next
      case False
      with st n show ?thesis by auto
    qed
  qed
qed

lemma plot_measurements_artists:
  assumes ok: "plot_measurements pinv ms mapping fb kw p = (p', None)"
  shows "\<exists>new. artists p' = artists p @ new \<and>
       list_all2 (scatter_of pinv mapping fb
                    (dict_update [(''marker'', Str ''o''), (''color'', Str ''b'')] kw))
         (filter (plotted pinv fb) (iterated ms)) new"
proof -
  let ?kw = "dict_update [(''marker'', Str ''o''), (''color'', Str ''b'')] kw"
  let ?s0 = "\<lparr>plt = p, clutter_handle = None, clutter_label = None\<rparr>"
  obtain s1 e1 where ml:
    "measurements_loop pinv mapping fb ?kw (measurements_set ms) ?s0 = (s1, e1)"
    by (cases "measurements_loop pinv mapping fb ?kw (measurements_set ms) ?s0")
  from ok ml have e1: "e1 = None"
    by (auto simp: plot_measurements_def Let_def split: sum.splits option.splits)
  from ml e1 have ml':
    "measurements_loop pinv mapping fb ?kw (measurements_set ms) ?s0 = (s1, None)" by simp
  have it: "measurements_set ms = map Inr (iterated ms)"
    by (rule measurements_set_iterated [OF ml'])
  from ml' it have
    "measurements_loop pinv mapping fb ?kw (map Inr (iterated ms)) ?s0 = (s1, None)" by simp
  from measurements_loop_artists [OF this] obtain new where
    n: "artists (plt s1) = artists p @ new"
       "list_all2 (scatter_of pinv mapping fb ?kw) (filter (plotted pinv fb) (iterated ms)) new"
    by auto
  from ok ml e1 have "artists p' = artists (plt s1)"
    by (auto simp: plot_measurements_def Let_def split: sum.splits option.splits)
  with n show ?thesis by auto
qed

text \<open>
  Claim C8. In a call of \<open>plot_measurements\<close> that returns, the artists added are one
  scatter point for each plotted measurement, in order; the point of a clutter measurement
  has the fixed style (colour \<open>y\<close>, marker \<open>2\<close>, the tri-up marker), whatever the style
  overrides \<open>kw\<close> are, and the point of any other detection has the default style updated by
  the overrides. For a clutter measurement the whole loop iteration is the same under any
  two sets of overrides.
\<close>

theorem clutter_style_fixed:
  "(plot_measurements pinv ms mapping fb kw p = (p', None) \<longrightarrow>
      (\<exists>new. artists p' = artists p @ new \<and>
         list_all2
           (\<lambda>d a. \<exists>x y. a = Scatter x y
              (if isinstance_Clutter (cls d)
               then [(''color'', Str ''y''), (''marker'', Str ''2'')]
               else dict_update [(''marker'', Str ''o''), (''color'', Str ''b'')] kw))
           (filter (plotted pinv fb) (iterated ms)) new)) \<and>
   (isinstance_Clutter (cls d) \<longrightarrow>
      measurement_step pinv mapping fb kw1 d s = measurement_step pinv mapping fb kw2 d s)"
proof -
  let ?kw = "dict_update [(''marker'', Str ''o''), (''color'', Str ''b'')] kw"
  let ?R = "\<lambda>d a. \<exists>x y. a = Scatter x y
              (if isinstance_Clutter (cls d)
               then [(''color'', Str ''y''), (''marker'', Str ''2'')] else ?kw)"
  have A: "\<exists>new. artists p' = artists p @ new \<and>
         list_all2 ?R (filter (plotted pinv fb) (iterated ms)) new"
    if ok: "plot_measurements pinv ms mapping fb kw p = (p', None)"
  proof -
    from plot_measurements_artists [OF ok] obtain new where
      n: "artists p' = artists p @ new"
         "list_all2 (scatter_of pinv mapping fb ?kw) (filter (plotted pinv fb) (iterated ms)) new"
      by blast
    have "scatter_of pinv mapping fb ?kw d a \<Longrightarrow> ?R d a" for d a
      by (auto simp: scatter_of_def clutter_kwargs_def)
    with n(2) have "list_all2 ?R (filter (plotted pinv fb) (iterated ms)) new"
      by (rule list_all2_mono)
    with n(1) show ?thesis by blast
  qed
  have B: "measurement_step pinv mapping fb kw1 d s = measurement_step pinv mapping fb kw2 d s"
    if "isinstance_Clutter (cls d)"
    using that by (simp add: measurement_step_def split: sum.splits step.splits)
  from A B show ?thesis by blast
qed

theorem clutter_style_fixed_witness:
  "(\<exists>x y x' y'. artists (fst (plot_measurements ex_pinv
        [Single ex_detection, Single ex_clutter, Single ex_blind] (0, 2) (Some ex_linear)
        [(''color'', Str ''r'')] init_plotter)) =
      [Scatter x y [(''marker'', Str ''o''), (''color'', Str ''r'')],
       Scatter x' y' [(''color'', Str ''y''), (''marker'', Str ''2'')]]) \<and>
   measurement_step ex_pinv (0, 2) (Some ex_linear) [] ex_clutter
       \<lparr>plt = init_plotter, clutter_handle = None, clutter_label = None\<rparr> =
     measurement_step ex_pinv (0, 2) (Some ex_linear) [(''color'', Str ''r'')] ex_clutter
       \<lparr>plt = init_plotter, clutter_handle = None, clutter_label = None\<rparr>"
proof -
  let ?ms = "[Single ex_detection, Single ex_clutter, Single ex_blind]"
  let ?kw = "[(''color'', Str ''r'')]"
  let ?s0 = "\<lparr>plt = init_plotter, clutter_handle = None, clutter_label = None\<rparr>"
  let ?r = "plot_measurements ex_pinv ?ms (0, 2) (Some ex_linear) ?kw init_plotter"
  have "snd ?r = None"
    by (simp add: measurements_eval ex_linear_transpose)
  then have a: "?r = (fst ?r, None)" by (metis prod.collapse)
  have f: "filter (plotted ex_pinv (Some ex_linear)) (iterated ?ms) = [ex_detection, ex_clutter]"
    by (simp add: measurements_eval ex_linear_transpose)
  have k: "dict_update [(''marker'', Str ''o''), (''color'', Str ''b'')] ?kw =
      [(''marker'', Str ''o''), (''color'', Str ''r'')]"
    by (simp add: dict_update_def)
  have c: "\<not> isinstance_Clutter (cls ex_detection)" "isinstance_Clutter (cls ex_clutter)"
    by (simp_all add: isinstance_Clutter_def ex_detection_def ex_clutter_def)
  have i: "artists init_plotter = []" by (simp add: init_plotter_def)
  note t = clutter_style_fixed [of ex_pinv ?ms "(0, 2)" "Some ex_linear" ?kw init_plotter
      "fst ?r" ex_clutter "[]" ?s0 ?kw]
  from t a have "\<exists>new. artists (fst ?r) = artists init_plotter @ new \<and>
         list_all2
           (\<lambda>d a. \<exists>x y. a = Scatter x y
              (if isinstance_Clutter (cls d)
               then [(''color'', Str ''y''), (''marker'', Str ''2'')]
               else dict_update [(''marker'', Str ''o''), (''color'', Str ''b'')] ?kw))
           (filter (plotted ex_pinv (Some ex_linear)) (iterated ?ms)) new" by blast
  then have 1: "\<exists>x y x' y'. artists (fst ?r) =
      [Scatter x y [(''marker'', Str ''o''), (''color'', Str ''r'')],
       Scatter x' y' [(''color'', Str ''y''), (''marker'', Str ''2'')]]"
    unfolding f k i using c by (auto simp: list_all2_Cons1)
  from t c(2) have 2: "measurement_step ex_pinv (0, 2) (Some ex_linear) [] ex_clutter ?s0 =
     measurement_step ex_pinv (0, 2) (Some ex_linear) ?kw ex_clutter ?s0" by blast
  from 1 2 show ?thesis by blast
qed

text \<open>
  Claim C3. The model of a measurement is the one attached to it, and the fallback
  argument if none is attached. If the resolved model is linear and the iteration for a
  detection completes, the point drawn is at the mapped components of the pseudo-inverse
  of the model matrix applied to the measurement vector. If no model resolves, or the
  model is neither linear nor nonlinear, or it is nonlinear and has no inverse function
  (the attribute is missing, or the call raises \<open>NotImplementedError\<close> or
  \<open>AttributeError\<close>), the iteration emits one warning, draws nothing, and the loop goes
  on with the remaining measurements.
\<close>

theorem measurement_model_resolution:
  "(measurement_model d = Some m \<longrightarrow> resolve_model d fb = Some m) \<and>
   (measurement_model d = None \<longrightarrow> resolve_model d fb = fb) \<and>
   (resolve_model d fb = Some m \<and> kind m = LinearModel M \<and> isinstance_Detection (cls d) \<and>
    measurement_step pinv mapping fb kw d s = Inr s' \<longrightarrow>
      (\<exists>v x y sty. matvec (pinv M) (state_vector d) = Inr v \<and>
         py_index v (fst mapping) = Inr x \<and> py_index v (snd mapping) = Inr y \<and>
         artists (plt s') = artists (plt s) @ [Scatter x y sty])) \<and>
   (resolve_model d fb = None \<or>
    (\<exists>m. resolve_model d fb = Some m \<and>
       (kind m = OtherModel \<or>
        kind m = NonLinearModel \<and>
          (inverse_function m = None \<or>
           (\<exists>f. inverse_function m = Some f \<and>
              (f (state_vector d) = Inl NotImplementedError \<or>
               f (state_vector d) = Inl AttributeError))))) \<longrightarrow>
      (\<exists>w. measurement_step pinv mapping fb kw d s = Inr (warn w s) \<and>
         artists (plt (warn w s)) = artists (plt s) \<and>
         warnings (plt (warn w s)) = warnings (plt s) @ [w] \<and>
         measurements_loop pinv mapping fb kw (Inr d # rest) s =
           measurements_loop pinv mapping fb kw rest (warn w s)))"
proof -
  have 1: "measurement_model d = Some m \<longrightarrow> resolve_model d fb = Some m"
    by (simp add: resolve_model_def)
  have 2: "measurement_model d = None \<longrightarrow> resolve_model d fb = fb"
    by (simp add: resolve_model_def)
  have 3: "resolve_model d fb = Some m \<and> kind m = LinearModel M \<and> isinstance_Detection (cls d) \<and>
    measurement_step pinv mapping fb kw d s = Inr s' \<longrightarrow>
      (\<exists>v x y sty. matvec (pinv M) (state_vector d) = Inr v \<and>
         py_index v (fst mapping) = Inr x \<and> py_index v (snd mapping) = Inr y \<and>
         artists (plt s') = artists (plt s) @ [Scatter x y sty])"
    by (auto simp: measurement_step_def invert_measurement_def scatter_mapped_def add_artist_def
        split: sum.splits if_splits)
  have 4: "\<exists>w. measurement_step pinv mapping fb kw d s = Inr (warn w s) \<and>
         artists (plt (warn w s)) = artists (plt s) \<and>
         warnings (plt (warn w s)) = warnings (plt s) @ [w] \<and>
         measurements_loop pinv mapping fb kw (Inr d # rest) s =
           measurements_loop pinv mapping fb kw rest (warn w s)"
    if "resolve_model d fb = None \<or>
    (\<exists>m. resolve_model d fb = Some m \<and>
       (kind m = OtherModel \<or>
        kind m = NonLinearModel \<and>
          (inverse_function m = None \<or>
           (\<exists>f. inverse_function m = Some f \<and>
              (f (state_vector d) = Inl NotImplementedError \<or>
               f (state_vector d) = Inl AttributeError)))))"
  proof -
    from that have "\<exists>w. invert_measurement pinv d (resolve_model d fb) = Inr (Skip w)"
      by (auto simp: invert_measurement_def)
    then obtain w where "invert_measurement pinv d (resolve_model d fb) = Inr (Skip w)" ..
    then have "measurement_step pinv mapping fb kw d s = Inr (warn w s)"
      by (simp add: measurement_step_def)
    then show ?thesis by (auto simp: warn_def)
  qed
  from 1 2 3 4 show ?thesis by blast
qed

theorem measurement_model_resolution_witness:
  "resolve_model ex_detection None = Some ex_linear \<and>
   resolve_model ex_clutter (Some ex_linear) = Some ex_linear \<and>
   (\<exists>x y sty. artists (plt (projr (measurement_step ex_pinv (0, 2) None [] ex_detection
        \<lparr>plt = init_plotter, clutter_handle = None, clutter_label = None\<rparr>))) =
      [Scatter x y sty]) \<and>
   (\<exists>w. measurement_step ex_pinv (0, 2) None [] ex_blind
        \<lparr>plt = init_plotter, clutter_handle = None, clutter_label = None\<rparr> =
      Inr (warn w \<lparr>plt = init_plotter, clutter_handle = None, clutter_label = None\<rparr>))"
proof -
  let ?s0 = "\<lparr>plt = init_plotter, clutter_handle = None, clutter_label = None\<rparr>"
  let ?M = "[[1, 0, 0, 0], [0, 0, 1, 0::real]]"
  let ?st = "measurement_step ex_pinv (0, 2) None [] ex_detection ?s0"
  have m1: "measurement_model ex_detection = Some ex_linear" by (simp add: ex_detection_def)
  have m2: "measurement_model ex_clutter = None" by (simp add: ex_clutter_def)
  have m3: "measurement_model ex_blind = Some ex_nonlinear" by (simp add: ex_blind_def)
  note t1 = measurement_model_resolution [of ex_detection ex_linear None ?M ex_pinv "(0, 2)" "[]"
      ?s0 "projr ?st" "[]"]
  from t1 m1 have r1: "resolve_model ex_detection None = Some ex_linear" by blast
  note t2 = measurement_model_resolution [of ex_clutter ex_linear "Some ex_linear"]
  from t2 m2 have r2: "resolve_model ex_clutter (Some ex_linear) = Some ex_linear" by blast
  have "\<exists>s'. ?st = Inr s'"
    by (simp add: measurements_eval ex_linear_transpose)
  then have st: "?st = Inr (projr ?st)" by auto
  have kd: "kind ex_linear = LinearModel ?M" by (simp add: ex_linear_def)
  have dt: "isinstance_Detection (cls ex_detection)"
    by (simp add: isinstance_Detection_def ex_detection_def)
  have i: "artists (plt ?s0) = []" by (simp add: init_plotter_def)
  have pre: "resolve_model ex_detection None = Some ex_linear \<and>
      kind ex_linear = LinearModel ?M \<and> isinstance_Detection (cls ex_detection) \<and>
      ?st = Inr (projr ?st)"
    using r1 kd dt st by (intro conjI)
  from t1 [THEN conjunct2, THEN conjunct2, THEN conjunct1, THEN mp, OF pre]
  have 3: "\<exists>x y sty. artists (plt (projr ?st)) = [Scatter x y sty]"
    unfolding i by auto
  note t3 = measurement_model_resolution [of ex_blind ex_nonlinear None ?M ex_pinv "(0, 2)" "[]" ?s0
      ?s0 "[]"]
  from t3 m3 have r3: "resolve_model ex_blind None = Some ex_nonlinear" by blast
  have n: "kind ex_nonlinear = NonLinearModel" "inverse_function ex_nonlinear = None"
    by (simp_all add: ex_nonlinear_def)
  from r3 n have h: "resolve_model ex_blind None = None \<or>
    (\<exists>m. resolve_model ex_blind None = Some m \<and>
       (kind m = OtherModel \<or>
        kind m = NonLinearModel \<and>
          (inverse_function m = None \<or>
           (\<exists>f. inverse_function m = Some f \<and>
              (f (state_vector ex_blind) = Inl NotImplementedError \<or>
               f (state_vector ex_blind) = Inl AttributeError)))))" by blast
  from t3 [THEN conjunct2, THEN conjunct2, THEN conjunct2, THEN mp, OF h]
  have 4: "\<exists>w. measurement_step ex_pinv (0, 2) None [] ex_blind ?s0 = Inr (warn w ?s0)"
    by blast
  from r1 r2 3 4 show ?thesis by blast
qed

subsection \<open>prepare_data\<close>








subsection \<open>update_animation\<close>

lemma series_ok_lengths:
  "series_ok ds \<Longrightarrow> s \<in> set ds \<Longrightarrow> s' \<in> set ds \<Longrightarrow>
     length (state_vector s) = length (state_vector s') \<and> 3 \<le> length (state_vector s)"
  by (auto simp: series_ok_def list_all_iff)









subsection \<open>run_animation\<close>

lemma initial_line_errors:
  "initial_line a series = Inl e \<Longrightarrow> e = IndexError \<or> e = ValueError"
  by (auto simp: initial_line_def np_array_def column_def split: sum.splits if_splits)

lemma initial_line_empty: "initial_line a [] = Inl IndexError"
  by (simp add: initial_line_def np_array_def column_def)

lemma initial_line_ok:
  "initial_line a series = Inr l \<Longrightarrow> series_ok series \<and> series \<noteq> []"
  by (cases series)
    (auto simp: initial_line_def np_array_def column_def series_ok_def list_all_iff
      split: sum.splits if_splits)

lemma collect_series_empty:
  "list_ex (\<lambda>a. plotting_data a = Some []) data \<Longrightarrow>
     \<exists>e. collect_series data acc = Inl e \<and> (e = IndexError \<or> e = ValueError)"
proof (induction data arbitrary: acc)
  case Nil
  then show ?case by simp
next
  case (Cons a rest)
  show ?case
  proof (cases "plotting_data a")
    case None
    with Cons.prems have "list_ex (\<lambda>a. plotting_data a = Some []) rest" by simp
    from Cons.IH [OF this] None show ?thesis by simp
  next
    case (Some series)
    show ?thesis
    proof (cases "initial_line a series")
      case (Inl e)
      with Some initial_line_errors [OF Inl] show ?thesis by simp
    next
      case (Inr l)
      with initial_line_empty have "series \<noteq> []" by auto
      with Cons.prems Some have "list_ex (\<lambda>a. plotting_data a = Some []) rest" by simp
      from Cons.IH [OF this] Some Inr show ?thesis by simp
    qed
  qed
qed

lemma collect_series_ok:
  "collect_series data acc0 = Inr acc \<Longrightarrow> a \<in> set data \<Longrightarrow> plotting_data a = Some series \<Longrightarrow>
     series_ok series \<and> series \<noteq> []"
proof (induction data arbitrary: acc0)
  case Nil
  then show ?case by simp
next
  case (Cons b rest)
  show ?case
  proof (cases "plotting_data b")
    case None
    with Cons.prems have "collect_series rest acc0 = Inr acc" "a \<in> set rest" by auto
    from Cons.IH [OF this(1) this(2) Cons.prems(3)] show ?thesis .
  next
    case (Some sb)
    with Cons.prems(1) obtain l where l: "initial_line b sb = Inr l"
      by (cases "initial_line b sb") auto
    show ?thesis
    proof (cases "a = b")
      case True
      with Some Cons.prems(3) initial_line_ok [OF l] show ?thesis by simp
    next
      case False
      with Cons.prems have a: "a \<in> set rest" by simp
      from Cons.prems(1) Some l obtain acc1 where "collect_series rest acc1 = Inr acc" by simp
      from Cons.IH [OF this a Cons.prems(3)] show ?thesis .
    qed
  qed
qed

lemma mapE_component_ok:
  "\<forall>s \<in> set ss. 0 \<le> k \<and> k < int (length (state_vector s)) \<Longrightarrow>
     \<exists>xs. mapE (\<lambda>s. py_index (state_vector s) k) ss = Inr xs"
  by (induction ss) (auto simp: py_index_def)

lemma series_coords_ok:
  "series_ok series \<Longrightarrow> plotting_data a = Some series \<Longrightarrow> k = 0 \<or> k = 2 \<Longrightarrow>
     \<exists>xs. series_coords k a = Inr xs"
proof -
  assume ok: "series_ok series" and p: "plotting_data a = Some series" and k: "k = 0 \<or> k = 2"
  have "0 \<le> k \<and> k < int (length (state_vector s))" if "s \<in> set series" for s
  proof -
    from series_ok_lengths [OF ok that that] have "3 \<le> length (state_vector s)" by simp
    with k show ?thesis by auto
  qed
  then have "\<forall>s \<in> set series. 0 \<le> k \<and> k < int (length (state_vector s))" by blast
  from mapE_component_ok [OF this] p show ?thesis by (simp add: series_coords_def)
qed

lemma mapE_series_coords_null:
  "list_ex (\<lambda>a. plotting_data a = None) data \<Longrightarrow>
   \<forall>a \<in> set data. plotting_data a = None \<or> (\<exists>xs. series_coords k a = Inr xs) \<Longrightarrow>
     mapE (series_coords k) data = Inl TypeError"
proof (induction data)
  case Nil
  then show ?case by simp
next
  case (Cons a rest)
  show ?case
  proof (cases "plotting_data a")
    case None
    then show ?thesis by (simp add: series_coords_def)
  next
    case (Some series)
    with Cons.prems obtain xs where "series_coords k a = Inr xs" by auto
    moreover from Cons.prems Some have "mapE (series_coords k) rest = Inl TypeError"
      by (intro Cons.IH) auto
    ultimately show ?thesis by simp
  qed
qed

lemmas run_animation_eval = initial_line_def np_array_def column_def
  ex_series_def ex_empty_series_def ex_null_series_def ex_state1_def ex_state3_def

text \<open>
  Claim C7. Nothing checks the series before the animation is set up. With an empty
  collection of series \<open>run_animation\<close> raises in the computation of the axis limits
  (\<open>min\<close> of an empty sequence). With a collection that holds an empty series it raises
  in the loop that plots the initial lines: an \<open>IndexError\<close> at the empty series, unless
  a series before it has made the loop raise already.
\<close>

theorem empty_series_raises:
  "run_animation times_to_plot [] = Inl ValueError \<and>
   (list_ex (\<lambda>a. plotting_data a = Some []) data \<longrightarrow>
      (\<exists>e. collect_series data \<lparr>the_lines = [], plotting_data_list = [], legends_key = []\<rparr> =
              Inl e \<and>
            run_animation times_to_plot data = Inl e \<and> (e = IndexError \<or> e = ValueError)))"
proof -
  have 1: "run_animation times_to_plot [] = Inl ValueError"
    by (simp add: run_animation_def axis_limits_def bounds_def all_coords_def py_min_def)
  have 2: "\<exists>e. collect_series data \<lparr>the_lines = [], plotting_data_list = [], legends_key = []\<rparr> =
              Inl e \<and>
            run_animation times_to_plot data = Inl e \<and> (e = IndexError \<or> e = ValueError)"
    if "list_ex (\<lambda>a. plotting_data a = Some []) data"
  proof -
    from collect_series_empty [OF that] obtain e where
      "collect_series data \<lparr>the_lines = [], plotting_data_list = [], legends_key = []\<rparr> = Inl e"
      "e = IndexError \<or> e = ValueError" by blast
    then show ?thesis by (auto simp: run_animation_def)
  qed
  from 1 2 show ?thesis by blast
qed

theorem empty_series_raises_witness:
  "run_animation [0, 1] [ex_series, ex_null_series, ex_empty_series] = Inl IndexError"
proof -
  let ?data = "[ex_series, ex_null_series, ex_empty_series]"
  have a: "list_ex (\<lambda>a. plotting_data a = Some []) ?data"
    by (simp add: run_animation_eval)
  from empty_series_raises [of "[0, 1]" ?data, THEN conjunct2, THEN mp, OF a] obtain e where
    e: "collect_series ?data \<lparr>the_lines = [], plotting_data_list = [], legends_key = []\<rparr> = Inl e"
       "run_animation [0, 1] ?data = Inl e" by blast
  from e(1) have "e = IndexError" by (simp add: run_animation_eval)
  with e(2) show ?thesis by simp
qed

text \<open>
  Claim C10. With a series whose stored data is \<open>None\<close> in the collection,
  \<open>run_animation\<close> raises: the loop that plots the initial lines skips that series, but
  the axis limits iterate the stored data of every series of the collection, so whenever
  that loop completes, the computation of the axis limits raises a \<open>TypeError\<close>.
\<close>

theorem null_series_raises:
  "list_ex (\<lambda>a. plotting_data a = None) data \<longrightarrow>
     (\<exists>e. run_animation times_to_plot data = Inl e) \<and>
     ((\<exists>acc. collect_series data \<lparr>the_lines = [], plotting_data_list = [], legends_key = []\<rparr> =
         Inr acc) \<longrightarrow>
        axis_limits data = Inl TypeError \<and> run_animation times_to_plot data = Inl TypeError)"
proof
  assume null: "list_ex (\<lambda>a. plotting_data a = None) data"
  let ?init = "\<lparr>the_lines = [], plotting_data_list = [], legends_key = []\<rparr>"
  have A: "axis_limits data = Inl TypeError \<and> run_animation times_to_plot data = Inl TypeError"
    if c: "collect_series data ?init = Inr acc" for acc
  proof -
    have "\<forall>a \<in> set data. plotting_data a = None \<or> (\<exists>xs. series_coords 0 a = Inr xs)"
    proof
      fix a assume a: "a \<in> set data"
      show "plotting_data a = None \<or> (\<exists>xs. series_coords 0 a = Inr xs)"
      proof (cases "plotting_data a")
        case None
        then show ?thesis by simp
      next
        case (Some series)
        from collect_series_ok [OF c a Some] have "series_ok series" by simp
        from series_coords_ok [OF this Some, of 0] show ?thesis by simp
      qed
    qed
    from mapE_series_coords_null [OF null this]
    have "all_coords 0 data = Inl TypeError" by (simp add: all_coords_def)
    then have "axis_limits data = Inl TypeError" by (simp add: axis_limits_def bounds_def)
    with c show ?thesis by (simp add: run_animation_def)
  qed
  have B: "\<exists>e. run_animation times_to_plot data = Inl e"
  proof (cases "collect_series data ?init")
    case (Inl e)
    then show ?thesis by (simp add: run_animation_def)
  next
    case (Inr acc)
    from A [OF this] show ?thesis by blast
  qed
  from A B show "(\<exists>e. run_animation times_to_plot data = Inl e) \<and>
     ((\<exists>acc. collect_series data ?init = Inr acc) \<longrightarrow>
        axis_limits data = Inl TypeError \<and> run_animation times_to_plot data = Inl TypeError)"
    by blast
qed

theorem null_series_raises_witness:
  "axis_limits [ex_series, ex_null_series] = Inl TypeError \<and>
   run_animation [0, 1] [ex_series, ex_null_series] = Inl TypeError"
proof -
  let ?data = "[ex_series, ex_null_series]"
  have a: "list_ex (\<lambda>a. plotting_data a = None) ?data"
    by (simp add: run_animation_eval)
  have b: "\<exists>acc. collect_series ?data
      \<lparr>the_lines = [], plotting_data_list = [], legends_key = []\<rparr> = Inr acc"
    by (simp add: run_animation_eval)
  from null_series_raises [of ?data "[0, 1]", THEN mp, OF a, THEN conjunct2, THEN mp, OF b]
  show ?thesis .
qed

subsection \<open>plot_tracks: lines, ellipses and particle clouds\<close>

lemma first_index_max:
  "x \<in> set w \<Longrightarrow> first_index w x < length w \<and> w ! first_index w x = x"
  by (induction w) auto

lemma argmax_index:
  "argmax w = Inr k \<Longrightarrow> k < length w \<and> w ! k = Max (set w)"
  using first_index_max [of "Max (set w)" w] Max_in [of "set w"]
  by (auto simp: argmax_def split: if_splits)

lemma argmin_index:
  "argmin w = Inr k \<Longrightarrow> k < length w \<and> w ! k = Min (set w)"
  using first_index_max [of "Min (set w)" w] Min_in [of "set w"]
  by (auto simp: argmin_def split: if_splits)

lemma py_index_nat:
  "py_index xs (int k) = Inr x \<Longrightarrow> k < length xs \<and> x = xs ! k"
  by (auto simp: py_index_def split: if_splits)

lemma state_ellipse_spec:
  assumes "state_ellipse eig HH kw s = Inr el"
  shows "\<exists>P w v kmax kmin.
        projected_covar HH s = Inr P \<and> eig P = (w, v) \<and>
        kmax < length w \<and> w ! kmax = Max (set w) \<and>
        kmin < length w \<and> w ! kmin = Min (set w) \<and>
        1 < length v \<and> kmax < length (v ! 0) \<and> kmax < length (v ! 1) \<and>
        width el = 2 * sqrt (w ! kmax) \<and>
        height el = 2 * sqrt (w ! kmin) \<and>
        angle el = rad2deg (arctan2 (v ! 1 ! kmax) (v ! 0 ! kmax))"
proof -
  from assms obtain P where P: "projected_covar HH s = Inr P"
    by (auto simp: state_ellipse_def split: sum.splits)
  obtain w v where wv: "eig P = (w, v)" by (cases "eig P")
  from assms P wv obtain kmax where kmax: "argmax w = Inr kmax"
    by (auto simp: state_ellipse_def split: sum.splits)
  from assms P wv kmax obtain kmin where kmin: "argmin w = Inr kmin"
    by (auto simp: state_ellipse_def split: sum.splits)
  from assms P wv kmax kmin obtain v1 where v1: "entry v 1 kmax = Inr v1"
    by (auto simp: state_ellipse_def split: sum.splits)
  from assms P wv kmax kmin v1 obtain v0 where v0: "entry v 0 kmax = Inr v0"
    by (auto simp: state_ellipse_def split: sum.splits)
  from v1 have e1: "1 < length v" "kmax < length (v ! 1)" "v1 = v ! 1 ! kmax"
    by (auto simp: entry_def split: if_splits)
  from v0 have e0: "kmax < length (v ! 0)" "v0 = v ! 0 ! kmax"
    by (auto simp: entry_def split: if_splits)
  from assms P wv kmax kmin v1 v0 have
    "width el = 2 * sqrt (w ! kmax)" "height el = 2 * sqrt (w ! kmin)"
    "angle el = rad2deg (arctan2 v1 v0)"
    by (auto simp: state_ellipse_def split: sum.splits)
  with P wv argmax_index [OF kmax] argmin_index [OF kmin] e1 e0 show ?thesis by blast
qed

lemma state_ellipse_centre:
  assumes "state_ellipse eig HH kw s = Inr el"
  shows "xy el = (state_vector s ! 0, state_vector s ! 2) \<and> 3 \<le> length (state_vector s)"
proof -
  from assms obtain x y where x: "py_index (state_vector s) 0 = Inr x"
    and y: "py_index (state_vector s) 2 = Inr y" and c: "xy el = (x, y)"
    by (auto simp: state_ellipse_def split: sum.splits prod.splits)
  from py_index_nat [of "state_vector s" 0 x] py_index_nat [of "state_vector s" 2 y] x y c
  show ?thesis by auto
qed

lemma plot_paths_artists:
  "plot_paths ts mapping kw p = (p', None) \<Longrightarrow>
     \<exists>lines. artists p' = artists p @ lines \<and>
       list_all2 (\<lambda>t a. path_line t mapping kw = Inr a) ts lines"
proof (induction ts arbitrary: p)
  case Nil
  then show ?case by simp
next
  case (Cons t ts)
  from Cons.prems obtain a where a: "path_line t mapping kw = Inr a"
    by (cases "path_line t mapping kw") auto
  with Cons.prems have "plot_paths ts mapping kw (p\<lparr>artists := artists p @ [a]\<rparr>) = (p', None)"
    by simp
  from Cons.IH [OF this] obtain lines where
    "artists p' = artists p @ a # lines"
    "list_all2 (\<lambda>t a. path_line t mapping kw = Inr a) ts lines" by auto
  with a have "artists p' = artists p @ (a # lines) \<and>
     list_all2 (\<lambda>t a. path_line t mapping kw = Inr a) (t # ts) (a # lines)" by simp
  then show ?case by blast
qed

lemma track_ellipses_artists:
  "track_ellipses eig HH kw ss p = (p', None) \<Longrightarrow>
     \<exists>els. artists p' = artists p @ map EllipseArtist els \<and>
       list_all2 (\<lambda>s el. state_ellipse eig HH kw s = Inr el) ss els"
proof (induction ss arbitrary: p)
  case Nil
  then show ?case by simp
next
  case (Cons s ss)
  from Cons.prems obtain el where el: "state_ellipse eig HH kw s = Inr el"
    by (cases "state_ellipse eig HH kw s") auto
  with Cons.prems have
    "track_ellipses eig HH kw ss (p\<lparr>artists := artists p @ [EllipseArtist el]\<rparr>) = (p', None)"
    by simp
  from Cons.IH [OF this] obtain els where
    "artists p' = artists p @ EllipseArtist el # map EllipseArtist els"
    "list_all2 (\<lambda>s el. state_ellipse eig HH kw s = Inr el) ss els" by auto
  with el have "artists p' = artists p @ map EllipseArtist (el # els) \<and>
     list_all2 (\<lambda>s el. state_ellipse eig HH kw s = Inr el) (s # ss) (el # els)" by simp
  then show ?case by blast
qed

lemma plot_ellipses_artists:
  "plot_ellipses eig ts mapping kw p = (p', None) \<Longrightarrow>
     \<exists>els. artists p' = artists p @ map EllipseArtist els \<and>
       list_all2 (\<lambda>(t, s) el. \<exists>HH. position_mapping_matrix (ndim t) mapping = Inr HH \<and>
                    state_ellipse eig HH kw s = Inr el) (track_states ts) els"
proof (induction ts arbitrary: p)
  case Nil
  then show ?case by (simp add: track_states_def)
next
  case (Cons t ts)
  from Cons.prems obtain HH where HH: "position_mapping_matrix (ndim t) mapping = Inr HH"
    by (cases "position_mapping_matrix (ndim t) mapping") auto
  obtain p1 e1 where te: "track_ellipses eig HH kw (states t) p = (p1, e1)"
    by (cases "track_ellipses eig HH kw (states t) p")
  with Cons.prems HH have e1: "e1 = None" by (cases e1) auto
  with Cons.prems HH te have pe: "plot_ellipses eig ts mapping kw p1 = (p', None)" by simp
  from te e1 have "track_ellipses eig HH kw (states t) p = (p1, None)" by simp
  from track_ellipses_artists [OF this] obtain els1 where
    1: "artists p1 = artists p @ map EllipseArtist els1"
       "list_all2 (\<lambda>s el. state_ellipse eig HH kw s = Inr el) (states t) els1" by blast
  from Cons.IH [OF pe] obtain els2 where
    2: "artists p' = artists p1 @ map EllipseArtist els2"
       "list_all2 (\<lambda>(t, s) el. \<exists>HH. position_mapping_matrix (ndim t) mapping = Inr HH \<and>
                    state_ellipse eig HH kw s = Inr el) (track_states ts) els2" by blast
  from 1(2) have "list_all2 (\<lambda>s el. \<exists>HH. position_mapping_matrix (ndim t) mapping = Inr HH \<and>
                    state_ellipse eig HH kw s = Inr el) (states t) els1"
    by (rule list_all2_mono) (use HH in blast)
  then have "list_all2 (\<lambda>(t, s) el. \<exists>HH. position_mapping_matrix (ndim t) mapping = Inr HH \<and>
                    state_ellipse eig HH kw s = Inr el) (map (Pair t) (states t)) els1"
    by (simp add: list_all2_map1)
  with 2(2) have "list_all2 (\<lambda>(t, s) el. \<exists>HH. position_mapping_matrix (ndim t) mapping = Inr HH \<and>
                    state_ellipse eig HH kw s = Inr el) (track_states (t # ts)) (els1 @ els2)"
    by (simp add: track_states_def list_all2_appendI)
  moreover from 1(1) 2(1) have "artists p' = artists p @ map EllipseArtist (els1 @ els2)" by simp
  ultimately show ?case by blast
qed

lemma plot_particles_artists:
  "plot_particles ss p = (p', None) \<Longrightarrow>
     \<exists>clouds. artists p' = artists p @ clouds \<and>
       list_all2 (\<lambda>s a. state_particles s = Inr a) ss clouds"
proof (induction ss arbitrary: p)
  case Nil
  then show ?case by simp
next
  case (Cons s ss)
  from Cons.prems obtain a where a: "state_particles s = Inr a"
    by (cases "state_particles s") auto
  with Cons.prems have "plot_particles ss (p\<lparr>artists := artists p @ [a]\<rparr>) = (p', None)"
    by simp
  from Cons.IH [OF this] obtain clouds where
    "artists p' = artists p @ a # clouds"
    "list_all2 (\<lambda>s a. state_particles s = Inr a) ss clouds" by auto
  with a have "artists p' = artists p @ (a # clouds) \<and>
     list_all2 (\<lambda>s a. state_particles s = Inr a) (s # ss) (a # clouds)" by simp
  then show ?case by blast
qed

lemma state_particles_cloud:
  assumes "state_particles s = Inr a"
  shows "particle_cloud s a"
proof -
  from assms obtain ps where ps: "particles s = Some ps"
    by (cases "particles s") (simp_all add: state_particles_def)
  from assms ps obtain data where d: "np_array ps = Inr data"
    by (cases "np_array ps") (simp_all add: state_particles_def)
  then have data: "data = ps" by (simp add: np_array_def split: if_splits)
  from assms ps d obtain xs where xs: "column 0 data = Inr xs"
    by (cases "column 0 data") (simp_all add: state_particles_def)
  from assms ps d xs obtain ys where ys: "column 2 data = Inr ys"
    by (cases "column 2 data") (simp_all add: state_particles_def)
  from xs have x: "xs = map (\<lambda>r. r ! 0) data" by (simp add: column_def split: if_splits)
  from ys have y: "ys = map (\<lambda>r. r ! 2) data" by (simp add: column_def split: if_splits)
  from assms ps d xs ys have "a = PlotLine xs ys particle_kwargs"
    by (simp add: state_particles_def)
  with ps data x y show ?thesis by (simp add: particle_cloud_def)
qed

text \<open>The stages of a call of plot_tracks that returns.\<close>

lemma plot_tracks_uncertainty_stages:
  assumes ok: "plot_tracks eig tracks mapping True particle kw p = (p', None)"
  shows "\<exists>p1 th p3 eh.
     plot_paths (map states (as_set tracks)) mapping (tracks_style kw) p = (p1, None) \<and>
     track_line2d (tracks_style kw) = Inr th \<and>
     plot_ellipses eig (as_set tracks) mapping (tracks_style kw)
       (append_legend_item th ''Track'' p1) = (p3, None) \<and>
     uncertainty_handle (tracks_style kw) = Inr eh \<and>
     p' = render_legend True (append_legend_item eh ''Uncertainty'' p3)"
proof -
  let ?kw = "tracks_style kw"
  let ?ts = "as_set tracks"
  obtain p1 e1 where pp: "plot_paths (map states ?ts) mapping ?kw p = (p1, e1)"
    by (cases "plot_paths (map states ?ts) mapping ?kw p")
  from ok pp have e1: "e1 = None"
    by (cases e1) (auto simp: plot_tracks_def tracks_style_def Let_def)
  from ok pp e1 obtain th where th: "track_line2d ?kw = Inr th"
    by (cases "track_line2d ?kw") (auto simp: plot_tracks_def tracks_style_def Let_def)
  let ?p2 = "append_legend_item th ''Track'' p1"
  obtain p3 e3 where pe: "plot_ellipses eig ?ts mapping ?kw ?p2 = (p3, e3)"
    by (cases "plot_ellipses eig ?ts mapping ?kw ?p2")
  from ok pp e1 th pe have e3: "e3 = None"
    by (cases e3) (auto simp: plot_tracks_def tracks_style_def Let_def)
  from ok pp e1 th pe e3 obtain eh where eh: "uncertainty_handle ?kw = Inr eh"
    by (cases "uncertainty_handle ?kw") (auto simp: plot_tracks_def tracks_style_def Let_def)
  from ok pp e1 th pe e3 eh have
    "p' = render_legend True (append_legend_item eh ''Uncertainty'' p3)"
    by (auto simp: plot_tracks_def tracks_style_def Let_def)
  with pp e1 th pe e3 eh show ?thesis by blast
qed

lemma plot_tracks_particle_stages:
  assumes ok: "plot_tracks eig tracks mapping False True kw p = (p', None)"
  shows "\<exists>p1 th p3.
     plot_paths (map states (as_set tracks)) mapping (tracks_style kw) p = (p1, None) \<and>
     track_line2d (tracks_style kw) = Inr th \<and>
     plot_particles (concat (map states (as_set tracks)))
       (append_legend_item th ''Track'' p1) = (p3, None) \<and>
     p' = render_legend False (append_legend_item particle_line2d ''Particles'' p3)"
proof -
  let ?kw = "tracks_style kw"
  let ?ts = "as_set tracks"
  obtain p1 e1 where pp: "plot_paths (map states ?ts) mapping ?kw p = (p1, e1)"
    by (cases "plot_paths (map states ?ts) mapping ?kw p")
  from ok pp have e1: "e1 = None"
    by (cases e1) (auto simp: plot_tracks_def tracks_style_def Let_def)
  from ok pp e1 obtain th where th: "track_line2d ?kw = Inr th"
    by (cases "track_line2d ?kw") (auto simp: plot_tracks_def tracks_style_def Let_def)
  let ?p2 = "append_legend_item th ''Track'' p1"
  obtain p3 e3 where pc: "plot_particles (concat (map states ?ts)) ?p2 = (p3, e3)"
    by (cases "plot_particles (concat (map states ?ts)) ?p2")
  from ok pp e1 th pc have e3: "e3 = None"
    by (cases e3) (auto simp: plot_tracks_def tracks_style_def Let_def)
  from ok pp e1 th pc e3 have
    "p' = render_legend False (append_legend_item particle_line2d ''Particles'' p3)"
    by (auto simp: plot_tracks_def tracks_style_def Let_def)
  with pp e1 th pc e3 show ?thesis by blast
qed

subsection \<open>plot_tracks: uncertainty ellipses\<close>

lemma ellipse_centres_append:
  "ellipse_centres (xs @ ys) = ellipse_centres xs @ ellipse_centres ys"
  by (induction xs rule: ellipse_centres.induct) auto

lemma ellipse_centres_ellipses: "ellipse_centres (map EllipseArtist els) = map xy els"
  by (induction els) auto

lemma ellipse_centres_lines:
  "list_all2 (\<lambda>t a. path_line t mapping kw = Inr a) ts lines \<Longrightarrow> ellipse_centres lines = []"
proof (induction ts lines rule: list_all2_induct)
  case Nil
  then show ?case by simp
next
  case (Cons t ts a lines)
  from Cons.hyps(1) obtain xs ys where "a = PlotLine xs ys kw"
    by (auto simp: path_line_def split: sum.splits)
  with Cons.IH show ?case by simp
qed

text \<open>
  Claim C1, amended. A call of \<open>plot_tracks\<close> with \<open>uncertainty=True\<close> that returns has
  drawn one line for each track and then exactly one ellipse for each state of each
  track, in order. The ellipse of a state is oriented by the angle from the x axis of the
  column of the eigenvector matrix that belongs to the largest eigenvalue of the
  covariance projected through the mapping; its width and height, the total lengths of
  its axes, are twice the square roots of the largest and of the smallest eigenvalue, so
  its semi-axes are the square roots themselves. The call has appended exactly one
  \<open>Track\<close> and one \<open>Uncertainty\<close> entry to the legend lists, however many tracks there
  are, and rendered the legend from them.
\<close>

theorem uncertainty_ellipses:
  "plot_tracks eig tracks mapping True particle kw p = (p', None) \<longrightarrow>
     (\<exists>lines els. artists p' = artists p @ lines @ map EllipseArtist els \<and>
        list_all2 (\<lambda>t a. path_line (states t) mapping (tracks_style kw) = Inr a)
          (as_set tracks) lines \<and>
        list_all2 (\<lambda>(t, s) el. uncertainty_ellipse eig mapping t s el)
          (track_states (as_set tracks)) els \<and>
        length els = length (concat (map states (as_set tracks)))) \<and>
     labels_list p' = labels_list p @ [''Track'', ''Uncertainty''] \<and>
     (\<exists>th eh. handles_list p' = handles_list p @ [th, eh]) \<and>
     legend_current p'"
proof
  assume ok: "plot_tracks eig tracks mapping True particle kw p = (p', None)"
  let ?kw = "tracks_style kw"
  let ?ts = "as_set tracks"
  from plot_tracks_uncertainty_stages [OF ok] obtain p1 th p3 eh where
    pp: "plot_paths (map states ?ts) mapping ?kw p = (p1, None)" and
    th: "track_line2d ?kw = Inr th" and
    pe: "plot_ellipses eig ?ts mapping ?kw (append_legend_item th ''Track'' p1) = (p3, None)" and
    eh: "uncertainty_handle ?kw = Inr eh" and
    p': "p' = render_legend True (append_legend_item eh ''Uncertainty'' p3)" by blast
  from plot_paths_artists [OF pp] obtain lines where
    l: "artists p1 = artists p @ lines"
       "list_all2 (\<lambda>t a. path_line t mapping ?kw = Inr a) (map states ?ts) lines" by blast
  from l(2) have l2: "list_all2 (\<lambda>t a. path_line (states t) mapping ?kw = Inr a) ?ts lines"
    by (simp add: list_all2_map1)
  from plot_ellipses_artists [OF pe] obtain els where
    e: "artists p3 = artists (append_legend_item th ''Track'' p1) @ map EllipseArtist els"
       "list_all2 (\<lambda>(t, s) el. \<exists>HH. position_mapping_matrix (ndim t) mapping = Inr HH \<and>
                    state_ellipse eig HH ?kw s = Inr el) (track_states ?ts) els" by blast
  have "uncertainty_ellipse eig mapping t s el"
    if "\<exists>HH. position_mapping_matrix (ndim t) mapping = Inr HH \<and>
          state_ellipse eig HH ?kw s = Inr el" for t s el
  proof -
    from that obtain HH where HH: "position_mapping_matrix (ndim t) mapping = Inr HH"
      and se: "state_ellipse eig HH ?kw s = Inr el" by blast
    from state_ellipse_spec [OF se] obtain P w v kmax kmin where
      h: "projected_covar HH s = Inr P" "eig P = (w, v)"
         "kmax < length w" "w ! kmax = Max (set w)"
         "kmin < length w" "w ! kmin = Min (set w)"
         "1 < length v" "kmax < length (v ! 0)" "kmax < length (v ! 1)"
         "width el = 2 * sqrt (w ! kmax)" "height el = 2 * sqrt (w ! kmin)"
         "angle el = rad2deg (arctan2 (v ! 1 ! kmax) (v ! 0 ! kmax))" by blast
    from h(10,11) have "semi_axes el = (sqrt (w ! kmax), sqrt (w ! kmin))"
      by (simp add: semi_axes_def)
    with h HH show ?thesis
      unfolding uncertainty_ellipse_def by blast
  qed
  then have "\<And>ts el. (case ts of (t, s) \<Rightarrow> \<lambda>el. \<exists>HH. position_mapping_matrix (ndim t) mapping = Inr HH \<and>
          state_ellipse eig HH ?kw s = Inr el) el \<Longrightarrow>
          (case ts of (t, s) \<Rightarrow> \<lambda>el. uncertainty_ellipse eig mapping t s el) el"
    by (auto split: prod.splits)
  with e(2) have e2: "list_all2 (\<lambda>(t, s) el. uncertainty_ellipse eig mapping t s el)
      (track_states ?ts) els"
    by (rule list_all2_mono)
  from e(2) have "length els = length (track_states ?ts)" by (simp add: list_all2_lengthD)
  also have "length (track_states ?ts) = length (concat (map states ?ts))"
    by (induction ?ts) (simp_all add: track_states_def length_concat comp_def)
  finally have len: "length els = length (concat (map states ?ts))" .
  from l(1) e(1) p' have a: "artists p' = artists p @ lines @ map EllipseArtist els" by simp
  note g1 = plot_paths_legend [OF pp]
  note g3 = plot_ellipses_legend [OF pe]
  from g1 g3 p' have lab: "labels_list p' = labels_list p @ [''Track'', ''Uncertainty'']"
    and han: "handles_list p' = handles_list p @ [th, eh]" by simp_all
  from p' have cur: "legend_current p'" by (simp add: legend_current_def)
  from a l2 e2 len lab han cur show
    "(\<exists>lines els. artists p' = artists p @ lines @ map EllipseArtist els \<and>
        list_all2 (\<lambda>t a. path_line (states t) mapping (tracks_style kw) = Inr a)
          (as_set tracks) lines \<and>
        list_all2 (\<lambda>(t, s) el. uncertainty_ellipse eig mapping t s el)
          (track_states (as_set tracks)) els \<and>
        length els = length (concat (map states (as_set tracks)))) \<and>
     labels_list p' = labels_list p @ [''Track'', ''Uncertainty''] \<and>
     (\<exists>th eh. handles_list p' = handles_list p @ [th, eh]) \<and>
     legend_current p'" by blast
qed

lemma ex_eye: "eye 4 = [[1, 0, 0, 0], [0, 1, 0, 0], [0, 0, 1, 0], [0, 0, 0, 1]]"
  by (simp add: eye_def upt_rec [of _ "numeral _"] upt_rec [of _ "Suc _"])

lemmas tracks_eval = plot_tracks_def path_line_def py_index_def dict_update_def dict_get_def
  track_line2d_def uncertainty_handle_def position_mapping_matrix_def projected_covar_def
  matmul_def dot_def state_ellipse_def argmax_def argmin_def entry_def arctan2_def rad2deg_def
  init_plotter_def render_legend_def append_legend_item_def ex_eye
  ex_eig_def ex_track_def ex_state1_def ex_state2_def Let_def
  state_particles_def np_array_def column_def particle_kwargs_def particle_line2d_def

lemma ex_ellipse1:
  assumes "uncertainty_ellipse ex_eig (0, 2) ex_track ex_state1 el"
  shows "width el = 4 \<and> height el = 2 \<and> angle el = 0"
proof -
  from assms obtain HH P w v kmax kmin where
    h: "position_mapping_matrix (ndim ex_track) (0, 2) = Inr HH"
       "projected_covar HH ex_state1 = Inr P" "ex_eig P = (w, v)"
       "kmax < length w" "w ! kmax = Max (set w)" "kmin < length w" "w ! kmin = Min (set w)"
       "width el = 2 * sqrt (w ! kmax)" "height el = 2 * sqrt (w ! kmin)"
       "angle el = rad2deg (arctan2 (v ! 1 ! kmax) (v ! 0 ! kmax))"
    unfolding uncertainty_ellipse_def by blast
  from h(1) have HH: "HH = [[1, 0, 0, 0], [0, 0, 1, 0]]"
    by (simp add: tracks_eval)
  from h(2) have P: "P = [[4, 0], [0, 1]]"
    unfolding HH by (simp add: tracks_eval)
  from h(3) have wv: "w = [4, 1]" "v = [[1, 0], [0, 1]]"
    unfolding P by (simp_all add: ex_eig_def)
  from h(4,5) have kmax: "kmax = 0"
    unfolding wv by (cases kmax) auto
  from h(6,7) have kmin: "kmin = 1"
    unfolding wv by (cases kmin) auto
  from h(8,9,10) show ?thesis
    unfolding wv kmax kmin by (simp add: arctan2_def rad2deg_def)
qed

lemma ex_ellipse2:
  assumes "uncertainty_ellipse ex_eig (0, 2) ex_track ex_state2 el"
  shows "width el = 6 \<and> height el = 2 \<and> angle el = 90"
proof -
  from assms obtain HH P w v kmax kmin where
    h: "position_mapping_matrix (ndim ex_track) (0, 2) = Inr HH"
       "projected_covar HH ex_state2 = Inr P" "ex_eig P = (w, v)"
       "kmax < length w" "w ! kmax = Max (set w)" "kmin < length w" "w ! kmin = Min (set w)"
       "width el = 2 * sqrt (w ! kmax)" "height el = 2 * sqrt (w ! kmin)"
       "angle el = rad2deg (arctan2 (v ! 1 ! kmax) (v ! 0 ! kmax))"
    unfolding uncertainty_ellipse_def by blast
  from h(1) have HH: "HH = [[1, 0, 0, 0], [0, 0, 1, 0]]"
    by (simp add: tracks_eval)
  from h(2) have P: "P = [[1, 0], [0, 9]]"
    unfolding HH by (simp add: tracks_eval)
  from h(3) have wv: "w = [1, 9]" "v = [[1, 0], [0, 1]]"
    unfolding P by (simp_all add: ex_eig_def)
  from h(4,5) have kmax: "kmax = 1"
    unfolding wv by (cases kmax) auto
  from h(6,7) have kmin: "kmin = 0"
    unfolding wv by (cases kmin) auto
  have "sqrt 9 = 3" using real_sqrt_abs [of 3] by simp
  with h(8,9,10) show ?thesis
    unfolding wv kmax kmin by (simp add: arctan2_def rad2deg_def)
qed

theorem uncertainty_ellipses_witness:
  "labels_list (fst (plot_tracks ex_eig (One ex_track) (0, 2) True False [] init_plotter)) =
     [''Track'', ''Uncertainty''] \<and>
   (\<exists>line e1 e2.
      artists (fst (plot_tracks ex_eig (One ex_track) (0, 2) True False [] init_plotter)) =
        [line, EllipseArtist e1, EllipseArtist e2] \<and>
      width e1 = 4 \<and> height e1 = 2 \<and> angle e1 = 0 \<and>
      width e2 = 6 \<and> height e2 = 2 \<and> angle e2 = 90)"
proof -
  let ?r = "plot_tracks ex_eig (One ex_track) (0, 2) True False [] init_plotter"
  have "snd ?r = None" by (simp add: tracks_eval)
  then have a: "?r = (fst ?r, None)" by (metis prod.collapse)
  from uncertainty_ellipses [of ex_eig "One ex_track" "(0, 2)" False "[]" init_plotter "fst ?r",
      THEN mp, OF a]
  obtain lines els where
    art: "artists (fst ?r) = artists init_plotter @ lines @ map EllipseArtist els" and
    l2: "list_all2 (\<lambda>t a. path_line (states t) (0, 2) (tracks_style []) = Inr a)
          (as_set (One ex_track)) lines" and
    e2: "list_all2 (\<lambda>(t, s) el. uncertainty_ellipse ex_eig (0, 2) t s el)
          (track_states (as_set (One ex_track))) els" and
    lab: "labels_list (fst ?r) = labels_list init_plotter @ [''Track'', ''Uncertainty'']"
    by blast
  from l2 obtain line where lines: "lines = [line]" by (auto simp: list_all2_Cons1)
  have ts: "track_states (as_set (One ex_track)) = [(ex_track, ex_state1), (ex_track, ex_state2)]"
    by (simp add: track_states_def ex_track_def)
  from e2 obtain e1 e2 where els: "els = [e1, e2]"
    and u1: "uncertainty_ellipse ex_eig (0, 2) ex_track ex_state1 e1"
    and u2: "uncertainty_ellipse ex_eig (0, 2) ex_track ex_state2 e2"
    unfolding ts by (auto simp: list_all2_Cons1)
  from art lines els have "artists (fst ?r) = [line, EllipseArtist e1, EllipseArtist e2]"
    by (simp add: init_plotter_def)
  moreover from lab have "labels_list (fst ?r) = [''Track'', ''Uncertainty'']"
    by (simp add: init_plotter_def)
  ultimately show ?thesis using ex_ellipse1 [OF u1] ex_ellipse2 [OF u2] by blast
qed

theorem semi_axes_counterexample:
  "projected_covar [[1, 0, 0, 0], [0, 0, 1, 0]] ex_state1 = Inr [[4, 0], [0, 1]] \<and>
   ex_eig [[4, 0], [0, 1]] = ([4, 1], [[1, 0], [0, 1]]) \<and>
   map semi_axes (drawn_ellipses (artists (fst
      (plot_tracks ex_eig (One ex_track) (0, 2) True False [] init_plotter)))) =
     [(2, 1), (3, 1)] \<and>
   map semi_axes (drawn_ellipses (artists (fst
      (plot_tracks ex_eig (One ex_track) (0, 2) True False [] init_plotter)))) \<noteq>
     [(2 * sqrt 4, 2 * sqrt 1), (2 * sqrt 9, 2 * sqrt 1)]"
proof -
  have s4: "sqrt 4 = 2" using real_sqrt_abs [of 2] by simp
  have s9: "sqrt 9 = 3" using real_sqrt_abs [of 3] by simp
  have 1: "projected_covar [[1, 0, 0, 0], [0, 0, 1, 0]] ex_state1 = Inr [[4, 0], [0, 1]]"
    by (simp add: tracks_eval)
  have 2: "ex_eig [[4, 0], [0, 1]] = ([4, 1], [[1, 0], [0, 1]])"
    by (simp add: ex_eig_def)
  have 3: "map semi_axes (drawn_ellipses (artists (fst
      (plot_tracks ex_eig (One ex_track) (0, 2) True False [] init_plotter)))) =
     [(2, 1), (3, 1)]"
    by (simp add: tracks_eval semi_axes_def s4 s9)
  from 1 2 3 show ?thesis by (simp add: s4 s9)
qed

subsection \<open>plot_tracks: the fixed components 0 and 2\<close>

lemma snd_track_states: "map snd (track_states ts) = concat (map states ts)"
  by (induction ts) (simp_all add: track_states_def comp_def)

lemma list_all2_map_eq:
  "list_all2 (\<lambda>x y. g y = f x) xs ys \<Longrightarrow> map g ys = map f xs"
  by (induction xs ys rule: list_all2_induct) simp_all

lemma particle_cloud_unique:
  "list_all2 particle_cloud ss c1 \<Longrightarrow> list_all2 particle_cloud ss c2 \<Longrightarrow> c1 = c2"
proof (induction ss c1 arbitrary: c2 rule: list_all2_induct)
  case Nil
  then show ?case by simp
next
  case (Cons s ss a c1)
  from Cons.prems obtain b c2' where c2: "c2 = b # c2'" "particle_cloud s b"
    "list_all2 particle_cloud ss c2'" by (auto simp: list_all2_Cons1)
  from Cons.hyps(1) c2(2) have "a = b"
    by (auto simp: particle_cloud_def split: option.splits)
  with Cons.IH [OF c2(3)] c2(1) show ?case by simp
qed

lemma plot_tracks_uncertainty_artists:
  assumes ok: "plot_tracks eig tracks mapping True particle kw p = (p', None)"
  shows "\<exists>lines els. artists p' = artists p @ lines @ map EllipseArtist els \<and>
     list_all2 (\<lambda>t a. path_line t mapping (tracks_style kw) = Inr a)
       (map states (as_set tracks)) lines \<and>
     list_all2 (\<lambda>(t, s) el. \<exists>HH. position_mapping_matrix (ndim t) mapping = Inr HH \<and>
                  state_ellipse eig HH (tracks_style kw) s = Inr el)
       (track_states (as_set tracks)) els"
proof -
  let ?kw = "tracks_style kw"
  let ?ts = "as_set tracks"
  from plot_tracks_uncertainty_stages [OF ok] obtain p1 th p3 eh where
    pp: "plot_paths (map states ?ts) mapping ?kw p = (p1, None)" and
    pe: "plot_ellipses eig ?ts mapping ?kw (append_legend_item th ''Track'' p1) = (p3, None)" and
    p': "p' = render_legend True (append_legend_item eh ''Uncertainty'' p3)" by blast
  from plot_paths_artists [OF pp] obtain lines where
    l: "artists p1 = artists p @ lines"
       "list_all2 (\<lambda>t a. path_line t mapping ?kw = Inr a) (map states ?ts) lines" by blast
  from plot_ellipses_artists [OF pe] obtain els where
    e: "artists p3 = artists (append_legend_item th ''Track'' p1) @ map EllipseArtist els"
       "list_all2 (\<lambda>(t, s) el. \<exists>HH. position_mapping_matrix (ndim t) mapping = Inr HH \<and>
                    state_ellipse eig HH ?kw s = Inr el) (track_states ?ts) els" by blast
  from l(1) e(1) p' have "artists p' = artists p @ lines @ map EllipseArtist els" by simp
  with l(2) e(2) show ?thesis by blast
qed

lemma plot_tracks_centres:
  assumes ok: "plot_tracks eig tracks mapping True particle kw p = (p', None)"
  shows "ellipse_centres (new_artists p p') =
           map (\<lambda>s. (state_vector s ! 0, state_vector s ! 2))
             (concat (map states (as_set tracks))) \<and>
         list_all (\<lambda>s. 3 \<le> length (state_vector s)) (concat (map states (as_set tracks)))"
proof -
  let ?ts = "as_set tracks"
  let ?f = "\<lambda>s. (state_vector s ! 0, state_vector s ! 2)"
  from plot_tracks_uncertainty_artists [OF ok] obtain lines els where
    a: "artists p' = artists p @ lines @ map EllipseArtist els" and
    l: "list_all2 (\<lambda>t a. path_line t mapping (tracks_style kw) = Inr a)
          (map states ?ts) lines" and
    e: "list_all2 (\<lambda>(t, s) el. \<exists>HH. position_mapping_matrix (ndim t) mapping = Inr HH \<and>
                  state_ellipse eig HH (tracks_style kw) s = Inr el) (track_states ?ts) els"
    by blast
  have "\<And>ts el. (case ts of (t, s) \<Rightarrow> \<lambda>el. \<exists>HH. position_mapping_matrix (ndim t) mapping = Inr HH \<and>
          state_ellipse eig HH (tracks_style kw) s = Inr el) el \<Longrightarrow>
          xy el = ?f (snd ts) \<and> 3 \<le> length (state_vector (snd ts))"
    using state_ellipse_centre by (auto split: prod.splits)
  with e have e2: "list_all2 (\<lambda>ts el. xy el = ?f (snd ts) \<and> 3 \<le> length (state_vector (snd ts)))
      (track_states ?ts) els"
    by (rule list_all2_mono)
  then have "list_all2 (\<lambda>ts el. xy el = ?f (snd ts)) (track_states ?ts) els"
    by (rule list_all2_mono) simp
  then have "list_all2 (\<lambda>s el. xy el = ?f s) (map snd (track_states ?ts)) els"
    by (simp add: list_all2_map1)
  then have c: "map xy els = map ?f (concat (map states ?ts))"
    unfolding snd_track_states by (rule list_all2_map_eq)
  from e2 have "list_all2 (\<lambda>ts el. 3 \<le> length (state_vector (snd ts))) (track_states ?ts) els"
    by (rule list_all2_mono) simp
  then have "\<forall>ts \<in> set (track_states ?ts). 3 \<le> length (state_vector (snd ts))"
    by (metis (mono_tags, lifting) in_set_conv_nth list_all2_conv_all_nth)
  then have "\<forall>s \<in> set (map snd (track_states ?ts)). 3 \<le> length (state_vector s)" by auto
  then have len: "list_all (\<lambda>s. 3 \<le> length (state_vector s)) (concat (map states ?ts))"
    unfolding snd_track_states by (simp add: list_all_iff)
  from a have "new_artists p p' = lines @ map EllipseArtist els"
    by (simp add: new_artists_def)
  with ellipse_centres_lines [OF l] c
  have "ellipse_centres (new_artists p p') = map ?f (concat (map states ?ts))"
    by (simp add: ellipse_centres_append ellipse_centres_ellipses)
  with len show ?thesis by simp
qed

lemma plot_tracks_clouds:
  assumes ok: "plot_tracks eig tracks mapping False True kw p = (p', None)"
  shows "\<exists>lines clouds. new_artists p p' = lines @ clouds \<and>
        list_all2 (\<lambda>t a. path_line (states t) mapping (tracks_style kw) = Inr a)
          (as_set tracks) lines \<and>
        list_all2 particle_cloud (concat (map states (as_set tracks))) clouds"
proof -
  let ?kw = "tracks_style kw"
  let ?ts = "as_set tracks"
  from plot_tracks_particle_stages [OF ok] obtain p1 th p3 where
    pp: "plot_paths (map states ?ts) mapping ?kw p = (p1, None)" and
    pc: "plot_particles (concat (map states ?ts)) (append_legend_item th ''Track'' p1) =
           (p3, None)" and
    p': "p' = render_legend False (append_legend_item particle_line2d ''Particles'' p3)"
    by blast
  from plot_paths_artists [OF pp] obtain lines where
    l: "artists p1 = artists p @ lines"
       "list_all2 (\<lambda>t a. path_line t mapping ?kw = Inr a) (map states ?ts) lines" by blast
  from l(2) have l2: "list_all2 (\<lambda>t a. path_line (states t) mapping ?kw = Inr a) ?ts lines"
    by (simp add: list_all2_map1)
  from plot_particles_artists [OF pc] obtain clouds where
    c: "artists p3 = artists (append_legend_item th ''Track'' p1) @ clouds"
       "list_all2 (\<lambda>s a. state_particles s = Inr a) (concat (map states ?ts)) clouds" by blast
  from c(2) have c2: "list_all2 particle_cloud (concat (map states ?ts)) clouds"
    by (rule list_all2_mono) (rule state_particles_cloud)
  from l(1) c(1) p' have "new_artists p p' = lines @ clouds" by (simp add: new_artists_def)
  with l2 c2 show ?thesis by blast
qed

text \<open>
  Claim C5. In a call of \<open>plot_tracks\<close> that returns, the centres of the uncertainty
  ellipses are the components 0 and 2 of the state vectors, state by state, and the
  particle clouds are the components 0 and 2 of the particles of each state; neither
  depends on \<open>mapping\<close>: two calls that differ in the mapping alone give the same centres
  and the same clouds. The lines of the tracks, drawn before them, go through the mapped
  components.
\<close>

theorem fixed_plot_indices:
  "(plot_tracks eig tracks mapping True particle kw p = (p', None) \<longrightarrow>
      ellipse_centres (new_artists p p') =
        map (\<lambda>s. (state_vector s ! 0, state_vector s ! 2))
          (concat (map states (as_set tracks))) \<and>
      list_all (\<lambda>s. 3 \<le> length (state_vector s)) (concat (map states (as_set tracks)))) \<and>
   (plot_tracks eig tracks mapping False True kw p = (p', None) \<longrightarrow>
      (\<exists>lines clouds. new_artists p p' = lines @ clouds \<and>
         list_all2 (\<lambda>t a. path_line (states t) mapping (tracks_style kw) = Inr a)
           (as_set tracks) lines \<and>
         list_all2 particle_cloud (concat (map states (as_set tracks))) clouds)) \<and>
   (plot_tracks eig tracks m1 True particle kw p = (p1, None) \<and>
    plot_tracks eig tracks m2 True particle kw p = (p2, None) \<longrightarrow>
      ellipse_centres (new_artists p p1) = ellipse_centres (new_artists p p2)) \<and>
   (plot_tracks eig tracks m1 False True kw p = (p1, None) \<and>
    plot_tracks eig tracks m2 False True kw p = (p2, None) \<longrightarrow>
      drop (length (as_set tracks)) (new_artists p p1) =
      drop (length (as_set tracks)) (new_artists p p2))"
proof -
  have 1: "plot_tracks eig tracks mapping True particle kw p = (p', None) \<longrightarrow>
      ellipse_centres (new_artists p p') =
        map (\<lambda>s. (state_vector s ! 0, state_vector s ! 2))
          (concat (map states (as_set tracks))) \<and>
      list_all (\<lambda>s. 3 \<le> length (state_vector s)) (concat (map states (as_set tracks)))"
    using plot_tracks_centres by blast
  have 2: "plot_tracks eig tracks mapping False True kw p = (p', None) \<longrightarrow>
      (\<exists>lines clouds. new_artists p p' = lines @ clouds \<and>
         list_all2 (\<lambda>t a. path_line (states t) mapping (tracks_style kw) = Inr a)
           (as_set tracks) lines \<and>
         list_all2 particle_cloud (concat (map states (as_set tracks))) clouds)"
    using plot_tracks_clouds by blast
  have 3: "ellipse_centres (new_artists p p1) = ellipse_centres (new_artists p p2)"
    if "plot_tracks eig tracks m1 True particle kw p = (p1, None) \<and>
        plot_tracks eig tracks m2 True particle kw p = (p2, None)"
    using that plot_tracks_centres [of eig tracks m1 particle kw p p1]
      plot_tracks_centres [of eig tracks m2 particle kw p p2] by simp
  have 4: "drop (length (as_set tracks)) (new_artists p p1) =
      drop (length (as_set tracks)) (new_artists p p2)"
    if h: "plot_tracks eig tracks m1 False True kw p = (p1, None) \<and>
        plot_tracks eig tracks m2 False True kw p = (p2, None)"
  proof -
    from h plot_tracks_clouds [of eig tracks m1 kw p p1] obtain l1 c1 where
      a: "new_artists p p1 = l1 @ c1"
         "list_all2 (\<lambda>t a. path_line (states t) m1 (tracks_style kw) = Inr a) (as_set tracks) l1"
         "list_all2 particle_cloud (concat (map states (as_set tracks))) c1" by blast
    from h plot_tracks_clouds [of eig tracks m2 kw p p2] obtain l2 c2 where
      b: "new_artists p p2 = l2 @ c2"
         "list_all2 (\<lambda>t a. path_line (states t) m2 (tracks_style kw) = Inr a) (as_set tracks) l2"
         "list_all2 particle_cloud (concat (map states (as_set tracks))) c2" by blast
    from a(2) have "length l1 = length (as_set tracks)"
      by (simp add: list_all2_lengthD)
    moreover from b(2) have "length l2 = length (as_set tracks)"
      by (simp add: list_all2_lengthD)
    ultimately have "length l1 = length (as_set tracks)" "length l2 = length (as_set tracks)"
      by simp_all
    with a(1) b(1) particle_cloud_unique [OF a(3) b(3)] show ?thesis by simp
  qed
  from 1 2 3 4 show ?thesis by blast
qed

theorem fixed_plot_indices_witness:
  "ellipse_centres (new_artists init_plotter
      (fst (plot_tracks ex_eig (One ex_track2) (1, 3) True False [] init_plotter))) = [(3, 5)] \<and>
   drop 1 (new_artists init_plotter
      (fst (plot_tracks ex_eig (One ex_track2) (1, 3) False True [] init_plotter))) =
     [PlotLine [3, 7] [5, 9] particle_kwargs]"
proof -
  let ?u = "plot_tracks ex_eig (One ex_track2) (1, 3) True False [] init_plotter"
  let ?c = "plot_tracks ex_eig (One ex_track2) (1, 3) False True [] init_plotter"
  have "snd ?u = None"
    by (simp add: tracks_eval ex_track2_def ex_state4_def)
  then have a: "?u = (fst ?u, None)" by (metis prod.collapse)
  have "snd ?c = None"
    by (simp add: tracks_eval ex_track2_def ex_state4_def)
  then have b: "?c = (fst ?c, None)" by (metis prod.collapse)
  have st: "concat (map states (as_set (One ex_track2))) = [ex_state4]"
    by (simp add: ex_track2_def)
  from fixed_plot_indices [of ex_eig "One ex_track2" "(1, 3)" False "[]" init_plotter "fst ?u",
      THEN conjunct1, THEN mp, OF a]
  have 1: "ellipse_centres (new_artists init_plotter (fst ?u)) = [(3, 5)]"
    unfolding st by (simp add: ex_state4_def)
  from fixed_plot_indices [of ex_eig "One ex_track2" "(1, 3)" False "[]" init_plotter "fst ?c",
      THEN conjunct2, THEN conjunct1, THEN mp, OF b]
  obtain lines clouds where
    n: "new_artists init_plotter (fst ?c) = lines @ clouds" and
    l: "list_all2 (\<lambda>t a. path_line (states t) (1, 3) (tracks_style []) = Inr a)
          (as_set (One ex_track2)) lines" and
    c: "list_all2 particle_cloud (concat (map states (as_set (One ex_track2)))) clouds"
    by blast
  from l obtain line where lines: "lines = [line]" by (auto simp: list_all2_Cons1)
  from c have "clouds = [PlotLine [3, 7] [5, 9] particle_kwargs]"
    unfolding st by (auto simp: list_all2_Cons1 particle_cloud_def ex_state4_def)
  with n lines have 2: "drop 1 (new_artists init_plotter (fst ?c)) =
     [PlotLine [3, 7] [5, 9] particle_kwargs]" by simp
  from 1 2 show ?thesis by simp
qed

end
